theory Spec2Isabelle
  imports Main "HOL-Library.Word"
begin

unbundle bit_operations_syntax

section \<open>The amd64 Xen page-table hierarchy manager (sys/amd64/xen/mmu\_map.c)\<close>

text \<open>
  The development embeds the walk context, the backend contract and the three hierarchy
  operations of \<^verbatim>\<open>mmu_map.c\<close>. Pointers and table entries are 64-bit words, the null
  pointer is the word 0. The model is the one of a kernel built with INVARIANTS, where
  every \<^verbatim>\<open>KASSERT\<close> is live: a failed assertion is the error \<open>Panic\<close>. A memory access
  at a virtual address the hardware does not translate, and a call through a null function
  pointer, is the error \<open>Fault\<close>.
\<close>

subsection \<open>Architecture constants\<close>

text \<open>Modelled from the spec: \<^verbatim>\<open>PAGE_SHIFT\<close> of machine/param.h is not in the source file;
  a table page holds 512 entries of 8 bytes, so a page has 12 offset bits.\<close>
definition PAGE_SHIFT :: nat where
  "PAGE_SHIFT = 12"

text \<open>Modelled from the spec: \<^verbatim>\<open>PAGE_SIZE\<close> of machine/param.h is not in the source file;
  it is the byte size of one 512-entry table page.\<close>
definition PAGE_SIZE :: nat where
  "PAGE_SIZE = 4096"

text \<open>Modelled from the spec: \<^verbatim>\<open>PDRSHIFT\<close> of machine/param.h is not in the source file;
  each level above the leaf consumes 9 bits of the address.\<close>
definition PDRSHIFT :: nat where
  "PDRSHIFT = 21"

text \<open>Modelled from the spec: \<^verbatim>\<open>PDPSHIFT\<close> of machine/param.h is not in the source file;
  9 bits above \<^verbatim>\<open>PDRSHIFT\<close>.\<close>
definition PDPSHIFT :: nat where
  "PDPSHIFT = 30"

text \<open>Modelled from the spec: \<^verbatim>\<open>PML4SHIFT\<close> of machine/param.h is not in the source file;
  9 bits above \<^verbatim>\<open>PDPSHIFT\<close>.\<close>
definition PML4SHIFT :: nat where
  "PML4SHIFT = 39"

text \<open>Modelled from the spec: \<^verbatim>\<open>PDPMASK\<close> of machine/param.h is not in the source file;
  it is \<^verbatim>\<open>(1UL << PDPSHIFT) - 1\<close>.\<close>
definition PDPMASK :: "64 word" where
  "PDPMASK = push_bit PDPSHIFT 1 - 1"

text \<open>Modelled from the spec: \<^verbatim>\<open>PML4MASK\<close> of machine/param.h is not in the source file;
  it is \<^verbatim>\<open>(1UL << PML4SHIFT) - 1\<close>.\<close>
definition PML4MASK :: "64 word" where
  "PML4MASK = push_bit PML4SHIFT 1 - 1"

text \<open>Modelled from the spec: \<^verbatim>\<open>PG_V\<close> of machine/pmap.h is not in the source file;
  bit 0 of an entry is the validity flag.\<close>
definition PG_V :: "64 word" where
  "PG_V = 0x001"

text \<open>Modelled from the spec: \<^verbatim>\<open>PG_RW\<close> of machine/pmap.h is not in the source file;
  the writable flag of an entry.\<close>
definition PG_RW :: "64 word" where
  "PG_RW = 0x002"

text \<open>Modelled from the spec: \<^verbatim>\<open>PG_U\<close> of machine/pmap.h is not in the source file;
  the user-accessible flag of an entry.\<close>
definition PG_U :: "64 word" where
  "PG_U = 0x004"

text \<open>Modelled from the spec: \<^verbatim>\<open>PG_FRAME\<close> of machine/pmap.h is not in the source file;
  the fixed mask that extracts the page-aligned frame address of an entry.\<close>
definition PG_FRAME :: "64 word" where
  "PG_FRAME = 0x000ffffffffff000"

text \<open>Modelled from the spec: the macro \<^verbatim>\<open>atop\<close> of machine/param.h is not in the source
  file; it is the page number of an address, \<^verbatim>\<open>x >> PAGE_SHIFT\<close>.\<close>
definition atop :: "64 word \<Rightarrow> 64 word" where
  "atop x = drop_bit PAGE_SHIFT x"

subsection \<open>Index extraction\<close>

text \<open>The helpers return a C \<^verbatim>\<open>int\<close>: the 64-bit shift result is cut to 32 bits and read
  as two's complement.\<close>

definition pml4t_index :: "64 word \<Rightarrow> int" where
  "pml4t_index va =
     (let SIGNMASK = push_bit 48 1 - 1;
          va = va AND SIGNMASK
      in sint (ucast (drop_bit PML4SHIFT va) :: 32 word))"

definition pdpt_index :: "64 word \<Rightarrow> int" where
  "pdpt_index va = sint (ucast (drop_bit PDPSHIFT (va AND PML4MASK)) :: 32 word)"

definition pdt_index :: "64 word \<Rightarrow> int" where
  "pdt_index va = sint (ucast (drop_bit PDRSHIFT (va AND PDPMASK)) :: 32 word)"

text \<open>\<^verbatim>\<open>&table[i]\<close> for a table of 8-byte entries and an \<^verbatim>\<open>int\<close> index.\<close>

definition slot :: "64 word \<Rightarrow> int \<Rightarrow> 64 word" where
  "slot t i = t + 8 * word_of_int i"

subsection \<open>Errors\<close>

datatype error = Panic | Fault

definition bindE :: "error + 'a \<Rightarrow> ('a \<Rightarrow> error + 'b) \<Rightarrow> error + 'b" where
  "bindE m f = (case m of Inl e \<Rightarrow> Inl e | Inr x \<Rightarrow> f x)"

definition KASSERT :: "bool \<Rightarrow> error + unit" where
  "KASSERT c = (if c then Inr () else Inl Panic)"

subsection \<open>Memory, the hypervisor queue and the event trace\<close>

text \<open>
  Machine memory is an array of 64-bit entry slots indexed by machine address. The
  backend's allocator keeps its private state in \<open>pool\<close>. Every call of a backend
  callback, every read of table memory and every hypervisor request is appended to the
  trace, so that claims about what an operation does, and in which order, are claims
  about the trace.
\<close>

datatype event =
    EvLoad "64 word" "64 word"
  | EvScan "64 word"
  | EvAlloc "64 word"
  | EvFree "64 word"
  | EvQueue "64 word" "64 word"
  | EvFlush

record backing =
  mem :: "64 word \<Rightarrow> 64 word"
  pool :: "64 word list"

record world =
  hp :: backing
  queue :: "(64 word \<times> 64 word) list"
  trace :: "event list"

text \<open>
  What the file takes from its environment as plain functions: the hardware translation
  of a virtual address to a machine address (\<open>None\<close>: the access faults), the Xen
  physical/machine translations \<^verbatim>\<open>xpmap_ptom\<close> and \<^verbatim>\<open>xpmap_mtop\<close> of machine/xen/xenvar.h,
  and the constant \<^verbatim>\<open>VM_MAX_KERNEL_ADDRESS\<close> of machine/vmparam.h.
\<close>

record machine =
  mmu :: "64 word \<Rightarrow> 64 word option"
  xpmap_ptom :: "64 word \<Rightarrow> 64 word"
  xpmap_mtop :: "64 word \<Rightarrow> 64 word"
  VM_MAX_KERNEL_ADDRESS :: "64 word"

subsection \<open>Backend contract and walk context\<close>

text \<open>The four function pointers of \<^verbatim>\<open>struct mmu_map_mbackend\<close>; \<open>None\<close> is a null
  pointer. The allocator and the free routine act on the backing store only.\<close>

record mmu_map_mbackend =
  alloc :: "(backing \<Rightarrow> 64 word \<times> backing) option"
  free :: "(64 word \<Rightarrow> backing \<Rightarrow> backing) option"
  ptov :: "(64 word \<Rightarrow> 64 word) option"
  vtop :: "(64 word \<Rightarrow> 64 word) option"

definition SANE :: "32 word" where
  "SANE = 0xcafebabe"

record mmu_map_index =
  pml4t :: "64 word"
  pdpt :: "64 word"
  pdt :: "64 word"
  pt :: "64 word"
  ptmb :: mmu_map_mbackend
  sanity :: "32 word"

record pmap =
  pm_pml4 :: "64 word"

subsection \<open>Context initialisation\<close>

text \<open>The first assertion, on the two pointers, is the outer case distinction.\<close>

definition mmu_map_t_init ::
  "mmu_map_index option \<Rightarrow> mmu_map_mbackend option \<Rightarrow> error + mmu_map_index" where
  "mmu_map_t_init addr mb =
     (case (addr, mb) of
        (Some pti, Some b) \<Rightarrow>
          bindE (KASSERT (sanity pti \<noteq> SANE)) (\<lambda>_.
          bindE (KASSERT (\<not> Option.is_none (alloc b) \<and>
                          \<not> Option.is_none (ptov b) \<and>
                          \<not> Option.is_none (vtop b))) (\<lambda>_.
            Inr (pti\<lparr>ptmb := b, sanity := SANE\<rparr>)))
      | _ \<Rightarrow> Inl Panic)"

subsection \<open>Primitive effects\<close>

text \<open>A read of one table entry through its virtual address.\<close>

definition load :: "machine \<Rightarrow> 64 word \<Rightarrow> world \<Rightarrow> error + (64 word \<times> world)" where
  "load M a w =
     (case mmu M a of
        None \<Rightarrow> Inl Fault
      | Some ma \<Rightarrow> Inr (mem (hp w) ma, w\<lparr>trace := trace w @ [EvLoad a (mem (hp w) ma)]\<rparr>))"

text \<open>Modelled from the spec: \<^verbatim>\<open>xen_queue_pt_update\<close> is not in the source file;
  it enqueues one 64-bit write to be applied at the given machine address.\<close>
definition xen_queue_pt_update :: "64 word \<Rightarrow> 64 word \<Rightarrow> world \<Rightarrow> world" where
  "xen_queue_pt_update ma val w =
     w\<lparr>queue := queue w @ [(ma, val)], trace := trace w @ [EvQueue ma val]\<rparr>"

text \<open>Modelled from the spec: \<^verbatim>\<open>xen_flush_queue\<close> is not in the source file;
  it applies all queued writes in submission order and leaves the queue empty.\<close>
definition xen_flush_queue :: "world \<Rightarrow> world" where
  "xen_flush_queue w =
     w\<lparr>hp := (hp w)\<lparr>mem := fold (\<lambda>(ma, val) m. m(ma := val)) (queue w) (mem (hp w))\<rparr>,
       queue := [],
       trace := trace w @ [EvFlush]\<rparr>"

text \<open>Modelled from the spec: \<^verbatim>\<open>memcchr\<close> of libkern is not in the source file; it
  returns a pointer to the first byte that differs from the given one. This is the offset
  of the lowest non-zero byte of a non-zero entry, entries being little-endian.\<close>
definition first_nonzero_byte :: "64 word \<Rightarrow> 64 word" where
  "first_nonzero_byte e =
     (if e AND 0xff \<noteq> 0 then 0
      else if e AND 0xff00 \<noteq> 0 then 1
      else if e AND 0xff0000 \<noteq> 0 then 2
      else if e AND 0xff000000 \<noteq> 0 then 3
      else if e AND 0xff00000000 \<noteq> 0 then 4
      else if e AND 0xff0000000000 \<noteq> 0 then 5
      else if e AND 0xff000000000000 \<noteq> 0 then 6
      else 7)"

text \<open>Modelled from the spec: \<^verbatim>\<open>memcchr\<close> of libkern is not in the source file; called
  with the byte 0 it scans the \<open>n\<close> bytes at \<open>s\<close> for a non-zero one, here entry by
  entry, and returns the pointer to the first one it finds, or the null pointer 0 when
  there is none. As in C, a byte found at address 0 is returned as the pointer 0, which
  the callers cannot tell from the null result. The scan faults at the first address the
  hardware does not translate.\<close>
fun memcchr_slots :: "machine \<Rightarrow> (64 word \<Rightarrow> 64 word) \<Rightarrow> 64 word \<Rightarrow> nat \<Rightarrow> error + 64 word" where
  "memcchr_slots M m s 0 = Inr 0"
| "memcchr_slots M m s (Suc n) =
     (case mmu M s of
        None \<Rightarrow> Inl Fault
      | Some ma \<Rightarrow> if m ma \<noteq> 0 then Inr (s + first_nonzero_byte (m ma))
                  else memcchr_slots M m (s + 8) n)"

text \<open>Modelled from the spec: the call \<^verbatim>\<open>memcchr(s, 0, n)\<close>, with its entry in the trace.\<close>
definition memcchr :: "machine \<Rightarrow> 64 word \<Rightarrow> nat \<Rightarrow> world \<Rightarrow> error + (64 word \<times> world)" where
  "memcchr M s n w =
     bindE (memcchr_slots M (mem (hp w)) s (n div 8)) (\<lambda>r.
       Inr (r, w\<lparr>trace := trace w @ [EvScan s]\<rparr>))"

text \<open>Calls through the function pointers of the context's backend copy.\<close>

definition call_alloc :: "mmu_map_index \<Rightarrow> world \<Rightarrow> error + (64 word \<times> world)" where
  "call_alloc pti w =
     (case alloc (ptmb pti) of
        None \<Rightarrow> Inl Fault
      | Some f \<Rightarrow> (case f (hp w) of (p, h) \<Rightarrow> Inr (p, w\<lparr>hp := h, trace := trace w @ [EvAlloc p]\<rparr>)))"

definition call_free :: "mmu_map_index \<Rightarrow> 64 word \<Rightarrow> world \<Rightarrow> world" where
  "call_free pti p w =
     (case free (ptmb pti) of
        None \<Rightarrow> w
      | Some f \<Rightarrow> w\<lparr>hp := f p (hp w), trace := trace w @ [EvFree p]\<rparr>)"

definition call_ptov :: "mmu_map_index \<Rightarrow> 64 word \<Rightarrow> error + 64 word" where
  "call_ptov pti pa = (case ptov (ptmb pti) of None \<Rightarrow> Inl Fault | Some f \<Rightarrow> Inr (f pa))"

definition call_vtop :: "mmu_map_index \<Rightarrow> 64 word \<Rightarrow> error + 64 word" where
  "call_vtop pti v = (case vtop (ptmb pti) of None \<Rightarrow> Inl Fault | Some f \<Rightarrow> Inr (f v))"

subsection \<open>The table get functions\<close>

definition pmap_get_pml4t :: "pmap option \<Rightarrow> error + 64 word" where
  "pmap_get_pml4t pm =
     (case pm of
        None \<Rightarrow> Inl Panic
      | Some p \<Rightarrow> bindE (KASSERT (pm_pml4 p \<noteq> 0)) (\<lambda>_. Inr (pm_pml4 p)))"

definition pmap_get_pdpt :: "machine \<Rightarrow> 64 word \<Rightarrow> 64 word \<Rightarrow> world \<Rightarrow> error + (64 word \<times> world)" where
  "pmap_get_pdpt M va pml4t_p w =
     bindE (KASSERT (va \<le> VM_MAX_KERNEL_ADDRESS M)) (\<lambda>_.
     bindE (KASSERT (pml4t_p \<noteq> 0)) (\<lambda>_.
     bindE (load M (slot pml4t_p (pml4t_index va)) w) (\<lambda>(pml4e, w).
       if pml4e AND PG_V = 0 then Inr (0, w)
       else Inr (xpmap_mtop M (pml4e AND PG_FRAME), w))))"

definition pmap_get_pdt :: "machine \<Rightarrow> 64 word \<Rightarrow> 64 word \<Rightarrow> world \<Rightarrow> error + (64 word \<times> world)" where
  "pmap_get_pdt M va pdpt_p w =
     bindE (KASSERT (va \<le> VM_MAX_KERNEL_ADDRESS M)) (\<lambda>_.
     bindE (KASSERT (pdpt_p \<noteq> 0)) (\<lambda>_.
     bindE (load M (slot pdpt_p (pdpt_index va)) w) (\<lambda>(pdpe, w).
       if pdpe AND PG_V = 0 then Inr (0, w)
       else Inr (xpmap_mtop M (pdpe AND PG_FRAME), w))))"

definition pmap_get_pt :: "machine \<Rightarrow> 64 word \<Rightarrow> 64 word \<Rightarrow> world \<Rightarrow> error + (64 word \<times> world)" where
  "pmap_get_pt M va pdt_p w =
     bindE (KASSERT (va \<le> VM_MAX_KERNEL_ADDRESS M)) (\<lambda>_.
     bindE (KASSERT (pdt_p \<noteq> 0)) (\<lambda>_.
     bindE (load M (slot pdt_p (pdt_index va)) w) (\<lambda>(pdte, w).
       if pdte AND PG_V = 0 then Inr (0, w)
       else Inr (xpmap_mtop M (pdte AND PG_FRAME), w))))"

subsection \<open>inspect\<close>

text \<open>The first assertion, on the two pointers, is the outer case distinction; the result
  carries the returned flag, the context storage and the world.\<close>

definition mmu_map_inspect_va ::
  "machine \<Rightarrow> pmap option \<Rightarrow> mmu_map_index option \<Rightarrow> 64 word \<Rightarrow> world
     \<Rightarrow> error + (bool \<times> mmu_map_index \<times> world)" where
  "mmu_map_inspect_va M pm addr va w =
     (case (addr, pm) of
        (Some pti, Some _) \<Rightarrow>
          bindE (KASSERT (sanity pti = SANE)) (\<lambda>_.
          bindE (pmap_get_pml4t pm) (\<lambda>root.
          let pti = pti\<lparr>pml4t := root\<rparr> in
          bindE (pmap_get_pdpt M va (pml4t pti) w) (\<lambda>(pa, w).
          if pa = 0 then Inr (False, pti, w)
          else
          bindE (call_ptov pti pa) (\<lambda>v.
          let pti = pti\<lparr>pdpt := v\<rparr> in
          bindE (pmap_get_pdt M va (pdpt pti) w) (\<lambda>(pa, w).
          if pa = 0 then Inr (False, pti, w)
          else
          bindE (call_ptov pti pa) (\<lambda>v.
          let pti = pti\<lparr>pdt := v\<rparr> in
          bindE (pmap_get_pt M va (pdt pti) w) (\<lambda>(pa, w).
          if pa = 0 then Inr (False, pti, w)
          else
          bindE (call_ptov pti pa) (\<lambda>v.
          let pti = pti\<lparr>pt := v\<rparr> in
          Inr (True, pti, w)))))))))
      | _ \<Rightarrow> Inl Panic)"

subsection \<open>hold\<close>

definition mmu_map_hold_va ::
  "machine \<Rightarrow> pmap option \<Rightarrow> mmu_map_index option \<Rightarrow> 64 word \<Rightarrow> world
     \<Rightarrow> error + (bool \<times> mmu_map_index \<times> world)" where
  "mmu_map_hold_va M pm addr va w =
     (case (addr, pm) of
        (Some pti, Some _) \<Rightarrow>
          bindE (KASSERT (sanity pti = SANE)) (\<lambda>_.
          let alloced = False in
          bindE (pmap_get_pml4t pm) (\<lambda>root.
          let pti = pti\<lparr>pml4t := root\<rparr> in
          bindE (pmap_get_pdpt M va (pml4t pti) w) (\<lambda>(pa, w).
          bindE
            (if pa = 0 then
               bindE (call_alloc pti w) (\<lambda>(p, w).
               let pti = pti\<lparr>pdpt := p\<rparr>;
                   alloced = True;
                   pml4tep = slot (pml4t pti) (pml4t_index va) in
               bindE (call_vtop pti pml4tep) (\<lambda>pml4tep_pa.
               let pml4tep_ma = xpmap_ptom M pml4tep_pa in
               bindE (call_vtop pti (pdpt pti)) (\<lambda>pdpt_pa.
               let pml4te = xpmap_ptom M pdpt_pa OR PG_RW OR PG_V OR PG_U;
                   w = xen_queue_pt_update pml4tep_ma pml4te w;
                   w = xen_flush_queue w in
               Inr (alloced, pti, w))))
             else
               bindE (call_ptov pti pa) (\<lambda>v. Inr (alloced, pti\<lparr>pdpt := v\<rparr>, w)))
            (\<lambda>(alloced, pti, w).
          bindE (pmap_get_pdt M va (pdpt pti) w) (\<lambda>(pa, w).
          bindE
            (if pa = 0 then
               bindE (call_alloc pti w) (\<lambda>(p, w).
               let pti = pti\<lparr>pdt := p\<rparr>;
                   alloced = True;
                   pdptep = slot (pdpt pti) (pdpt_index va) in
               bindE (call_vtop pti pdptep) (\<lambda>pdptep_pa.
               let pdptep_ma = xpmap_ptom M pdptep_pa in
               bindE (call_vtop pti (pdt pti)) (\<lambda>pdt_pa.
               let pdpte = xpmap_ptom M pdt_pa OR PG_RW OR PG_V OR PG_U;
                   w = xen_queue_pt_update pdptep_ma pdpte w;
                   w = xen_flush_queue w in
               Inr (alloced, pti, w))))
             else
               bindE (call_ptov pti pa) (\<lambda>v. Inr (alloced, pti\<lparr>pdt := v\<rparr>, w)))
            (\<lambda>(alloced, pti, w).
          bindE (pmap_get_pt M va (pdt pti) w) (\<lambda>(pa, w).
          bindE
            (if pa = 0 then
               bindE (call_alloc pti w) (\<lambda>(p, w).
               let pti = pti\<lparr>pt := p\<rparr>;
                   alloced = True;
                   pdtep = slot (pdt pti) (pdt_index va) in
               bindE (call_vtop pti pdtep) (\<lambda>pdtep_pa.
               let pdtep_ma = xpmap_ptom M pdtep_pa in
               bindE (call_vtop pti (pt pti)) (\<lambda>pt_pa.
               let pdte = xpmap_ptom M pt_pa OR PG_RW OR PG_V OR PG_U;
                   w = xen_queue_pt_update pdtep_ma pdte w;
                   w = xen_flush_queue w in
               Inr (alloced, pti, w))))
             else
               bindE (call_ptov pti pa) (\<lambda>v. Inr (alloced, pti\<lparr>pt := v\<rparr>, w)))
            (\<lambda>(alloced, pti, w).
          Inr (alloced, pti, w)))))))))
      | _ \<Rightarrow> Inl Panic)"

subsection \<open>release\<close>

text \<open>
  The function is embedded as its three blocks, root-most first so that each can name the
  one that follows it in the source: a \<^verbatim>\<open>return\<close> inside a block is a result that does
  not enter the following block.
\<close>

text \<open>Lines 503 to 543, the block marked \<^verbatim>\<open>Zap pml4te\<close>.\<close>

definition zap_pml4te :: "machine \<Rightarrow> 64 word \<Rightarrow> mmu_map_index \<Rightarrow> world \<Rightarrow> error + (mmu_map_index \<times> world)" where
  "zap_pml4te M va pti w =
     (if pml4t pti \<noteq> 0 then
        let pml4tep = slot (pml4t pti) (pml4t_index va) in
        bindE
          (if pdpt pti = 0 then
             bindE (load M pml4tep w) (\<lambda>(e, w). bindE (KASSERT (e = 0)) (\<lambda>_. Inr w))
           else Inr w)
          (\<lambda>w.
        if atop (pdpt pti) = atop va then Inr (pti, w)
        else
        bindE (memcchr M (pt pti) PAGE_SIZE w) (\<lambda>(r, w).
        if r = 0 then
          bindE (call_vtop pti pml4tep) (\<lambda>pml4tep_pa.
          let pml4tep_ma = xpmap_ptom M pml4tep_pa;
              w = xen_queue_pt_update pml4tep_ma 0 w;
              w = xen_flush_queue w;
              w = call_free pti (pdpt pti) w;
              pti = pti\<lparr>pdpt := 0\<rparr> in
          Inr (pti, w))
        else Inr (pti, w)))
      else Inr (pti, w))"

text \<open>Lines 459 to 501, the block marked \<^verbatim>\<open>Zap pdpte\<close>, and what follows it.\<close>

definition zap_pdpte :: "machine \<Rightarrow> 64 word \<Rightarrow> mmu_map_index \<Rightarrow> world \<Rightarrow> error + (mmu_map_index \<times> world)" where
  "zap_pdpte M va pti w =
     (if pdpt pti \<noteq> 0 then
        let pdptep = slot (pdpt pti) (pdpt_index va) in
        bindE
          (if pdt pti = 0 then
             bindE (load M pdptep w) (\<lambda>(e, w). bindE (KASSERT (e = 0)) (\<lambda>_. Inr w))
           else Inr w)
          (\<lambda>w.
        if atop (pdt pti) = atop va then Inr (pti, w)
        else
        bindE (memcchr M (pt pti) PAGE_SIZE w) (\<lambda>(r, w).
        bindE
          (if r = 0 then
             bindE (call_vtop pti pdptep) (\<lambda>pdptep_pa.
             let pdptep_ma = xpmap_ptom M pdptep_pa;
                 w = xen_queue_pt_update pdptep_ma 0 w;
                 w = xen_flush_queue w;
                 w = call_free pti (pdt pti) w;
                 pti = pti\<lparr>pdt := 0\<rparr> in
             Inr (pti, w))
           else Inr (pti, w))
          (\<lambda>(pti, w).
        bindE (KASSERT (pml4t pti \<noteq> 0)) (\<lambda>_.
        zap_pml4te M va pti w))))
      else zap_pml4te M va pti w)"

text \<open>Lines 411 to 457, the block marked \<^verbatim>\<open>Zap pdte\<close>, and what follows it.\<close>

definition zap_pdte :: "machine \<Rightarrow> 64 word \<Rightarrow> mmu_map_index \<Rightarrow> world \<Rightarrow> error + (mmu_map_index \<times> world)" where
  "zap_pdte M va pti w =
     (if pdt pti \<noteq> 0 then
        let pdtep = slot (pdt pti) (pdt_index va);
            rest = (\<lambda>(pti, w). bindE (KASSERT (pdpt pti \<noteq> 0)) (\<lambda>_. zap_pdpte M va pti w)) in
        if pt pti = 0 then
          bindE (load M pdtep w) (\<lambda>(e, w). bindE (KASSERT (e = 0)) (\<lambda>_. rest (pti, w)))
        else
          if atop (pt pti) = atop va then Inr (pti, w)
          else
          bindE (memcchr M (pt pti) PAGE_SIZE w) (\<lambda>(r, w).
          if r = 0 then
            bindE (call_vtop pti pdtep) (\<lambda>pdtep_pa.
            let pdtep_ma = xpmap_ptom M pdtep_pa;
                w = xen_queue_pt_update pdtep_ma 0 w;
                w = xen_flush_queue w;
                w = call_free pti (pt pti) w;
                pti = pti\<lparr>pt := 0\<rparr> in
            rest (pti, w))
          else rest (pti, w))
      else zap_pdpte M va pti w)"

definition mmu_map_release_va ::
  "machine \<Rightarrow> pmap option \<Rightarrow> mmu_map_index option \<Rightarrow> 64 word \<Rightarrow> world
     \<Rightarrow> error + (mmu_map_index \<times> world)" where
  "mmu_map_release_va M pm addr va w =
     (case (addr, pm) of
        (Some pti, Some _) \<Rightarrow>
          bindE (KASSERT (sanity pti = SANE)) (\<lambda>_.
          bindE (pmap_get_pml4t pm) (\<lambda>root.
          let pti = pti\<lparr>pml4t := root\<rparr> in
          if pml4t pti = 0 then Inr (pti, w)
          else
          bindE (if pt pti \<noteq> 0 then KASSERT (pdt pti \<noteq> 0) else Inr ()) (\<lambda>_.
          zap_pdte M va pti w)))
      | _ \<Rightarrow> Inl Panic)"

section \<open>Notions used to state the properties\<close>

subsection \<open>One level of a walk\<close>

text \<open>An entry leads to a table: it has the valid bit and its frame translates to a
  physical address other than 0, the value the table get functions return for "no table".\<close>

definition present :: "machine \<Rightarrow> 64 word \<Rightarrow> bool" where
  "present M e \<longleftrightarrow> e AND PG_V \<noteq> 0 \<and> xpmap_mtop M (e AND PG_FRAME) \<noteq> 0"

text \<open>The entry a read at virtual address \<open>s\<close> sees.\<close>

definition entry_at :: "machine \<Rightarrow> world \<Rightarrow> 64 word \<Rightarrow> 64 word" where
  "entry_at M w s = (case mmu M s of None \<Rightarrow> 0 | Some ma \<Rightarrow> mem (hp w) ma)"

text \<open>The common shape of the three table get functions, with the entry slot as a
  parameter (lemma \<open>get_next_eqs\<close>).\<close>

definition get_next ::
  "machine \<Rightarrow> 64 word \<Rightarrow> 64 word \<Rightarrow> 64 word \<Rightarrow> world \<Rightarrow> error + (64 word \<times> world)" where
  "get_next M va t s w =
     bindE (KASSERT (va \<le> VM_MAX_KERNEL_ADDRESS M)) (\<lambda>_.
     bindE (KASSERT (t \<noteq> 0)) (\<lambda>_.
     bindE (load M s w) (\<lambda>(e, w).
       if e AND PG_V = 0 then Inr (0, w)
       else Inr (xpmap_mtop M (e AND PG_FRAME), w))))"

text \<open>The common shape of the three level blocks of hold (lemma \<open>hold_factored\<close>) and of
  inspect (lemma \<open>inspect_factored\<close>).\<close>

definition hold_level ::
  "machine \<Rightarrow> 64 word \<Rightarrow> mmu_map_index \<Rightarrow> 64 word \<Rightarrow> 64 word \<Rightarrow> world
     \<Rightarrow> error + (bool \<times> 64 word \<times> world)" where
  "hold_level M va pti t s w =
     bindE (get_next M va t s w) (\<lambda>(pa, w).
       if pa = 0 then
         bindE (call_alloc pti w) (\<lambda>(p, w).
         bindE (call_vtop pti s) (\<lambda>s_pa.
         bindE (call_vtop pti p) (\<lambda>p_pa.
           Inr (True, p,
             xen_flush_queue (xen_queue_pt_update (xpmap_ptom M s_pa)
               (xpmap_ptom M p_pa OR PG_RW OR PG_V OR PG_U) w)))))
       else bindE (call_ptov pti pa) (\<lambda>v. Inr (False, v, w)))"

definition inspect_level ::
  "machine \<Rightarrow> 64 word \<Rightarrow> mmu_map_index \<Rightarrow> 64 word \<Rightarrow> 64 word \<Rightarrow> world
     \<Rightarrow> error + (64 word option \<times> world)" where
  "inspect_level M va pti t s w =
     bindE (get_next M va t s w) (\<lambda>(pa, w).
       if pa = 0 then Inr (None, w)
       else bindE (call_ptov pti pa) (\<lambda>v. Inr (Some v, w)))"

definition entry_val :: "machine \<Rightarrow> 64 word \<Rightarrow> 64 word" where
  "entry_val M p_pa = xpmap_ptom M p_pa OR PG_RW OR PG_V OR PG_U"


fun is_load :: "event \<Rightarrow> bool" where
  "is_load (EvLoad a v) = True"
| "is_load _ = False"

subsection \<open>The walk as a function of memory\<close>

text \<open>The three tables below the root that the entries of \<open>va\<close> lead to, if every level's
  entry leads to a table.\<close>

definition walk ::
  "machine \<Rightarrow> (64 word \<Rightarrow> 64 word) \<Rightarrow> 64 word \<Rightarrow> 64 word \<Rightarrow> world
     \<Rightarrow> (64 word \<times> 64 word \<times> 64 word) option" where
  "walk M pv root va w =
     (let e4 = entry_at M w (slot root (pml4t_index va)) in
      if \<not> present M e4 then None else
      let t3 = pv (xpmap_mtop M (e4 AND PG_FRAME));
          e3 = entry_at M w (slot t3 (pdpt_index va)) in
      if \<not> present M e3 then None else
      let t2 = pv (xpmap_mtop M (e3 AND PG_FRAME));
          e2 = entry_at M w (slot t2 (pdt_index va)) in
      if \<not> present M e2 then None else
      Some (t3, t2, pv (xpmap_mtop M (e2 AND PG_FRAME))))"

text \<open>The condition in the words of the specification: the governing entry at every level
  of the walk has the valid bit.\<close>

definition every_level_valid ::
  "machine \<Rightarrow> (64 word \<Rightarrow> 64 word) \<Rightarrow> 64 word \<Rightarrow> 64 word \<Rightarrow> world \<Rightarrow> bool" where
  "every_level_valid M pv root va w =
     (let e4 = entry_at M w (slot root (pml4t_index va));
          t3 = pv (xpmap_mtop M (e4 AND PG_FRAME));
          e3 = entry_at M w (slot t3 (pdpt_index va));
          t2 = pv (xpmap_mtop M (e3 AND PG_FRAME));
          e2 = entry_at M w (slot t2 (pdt_index va))
      in e4 AND PG_V \<noteq> 0 \<and> e3 AND PG_V \<noteq> 0 \<and> e2 AND PG_V \<noteq> 0)"

subsection \<open>What the operations expect of their environment\<close>

text \<open>The entry at slot \<open>s\<close> leads to the table at virtual address \<open>child\<close>.\<close>

definition resolves ::
  "machine \<Rightarrow> (64 word \<Rightarrow> 64 word) \<Rightarrow> world \<Rightarrow> 64 word \<Rightarrow> 64 word \<Rightarrow> bool" where
  "resolves M pv w s child \<longleftrightarrow>
     (case mmu M s of None \<Rightarrow> False
      | Some ma \<Rightarrow> present M (mem (hp w) ma) \<and>
                  pv (xpmap_mtop M (mem (hp w) ma AND PG_FRAME)) = child)"

definition resolved ::
  "machine \<Rightarrow> (64 word \<Rightarrow> 64 word) \<Rightarrow> mmu_map_index \<Rightarrow> 64 word \<Rightarrow> world \<Rightarrow> bool" where
  "resolved M pv c va w \<longleftrightarrow>
     resolves M pv w (slot (pml4t c) (pml4t_index va)) (pdpt c) \<and>
     resolves M pv w (slot (pdpt c) (pdpt_index va)) (pdt c) \<and>
     resolves M pv w (slot (pdt c) (pdt_index va)) (pt c)"

text \<open>The translations agree on a table page: its physical address is not 0, ptov undoes
  vtop, \<^verbatim>\<open>xpmap_mtop\<close> undoes \<^verbatim>\<open>xpmap_ptom\<close>, and its machine address is a frame address.\<close>

definition good_page ::
  "machine \<Rightarrow> (64 word \<Rightarrow> 64 word) \<Rightarrow> (64 word \<Rightarrow> 64 word) \<Rightarrow> 64 word \<Rightarrow> bool" where
  "good_page M pv vp p \<longleftrightarrow>
     vp p \<noteq> 0 \<and> pv (vp p) = p \<and> xpmap_mtop M (xpmap_ptom M (vp p)) = vp p \<and>
     xpmap_ptom M (vp p) AND PG_FRAME = xpmap_ptom M (vp p)"

text \<open>The allocator writes (say, to zero the page) only inside the machine frame of the
  page it returns.\<close>

definition alloc_confined ::
  "machine \<Rightarrow> (64 word \<Rightarrow> 64 word) \<Rightarrow> (backing \<Rightarrow> 64 word \<times> backing) \<Rightarrow> bool" where
  "alloc_confined M vp al \<longleftrightarrow>
     (\<forall>h ma. atop ma \<noteq> atop (xpmap_ptom M (vp (fst (al h)))) \<longrightarrow>
        mem (snd (al h)) ma = mem h ma)"

text \<open>
  The tables of a context, for the address \<open>va\<close>: the hardware reads each governing entry
  slot at the machine address the backend computes for it, the slots of the two lower
  directories lie in the machine frame of their table, the four tables occupy four
  different machine frames, and the translations agree on the three lower tables.
\<close>

definition well_placed ::
  "machine \<Rightarrow> (64 word \<Rightarrow> 64 word) \<Rightarrow> (64 word \<Rightarrow> 64 word) \<Rightarrow> mmu_map_index \<Rightarrow> 64 word \<Rightarrow> bool" where
  "well_placed M pv vp c va \<longleftrightarrow>
     (let s4 = slot (pml4t c) (pml4t_index va);
          s3 = slot (pdpt c) (pdpt_index va);
          s2 = slot (pdt c) (pdt_index va);
          m4 = xpmap_ptom M (vp s4);
          m3 = xpmap_ptom M (vp s3);
          m2 = xpmap_ptom M (vp s2);
          f3 = atop (xpmap_ptom M (vp (pdpt c)));
          f2 = atop (xpmap_ptom M (vp (pdt c)));
          f1 = atop (xpmap_ptom M (vp (pt c)))
      in mmu M s4 = Some m4 \<and> mmu M s3 = Some m3 \<and> mmu M s2 = Some m2 \<and>
         atop m3 = f3 \<and> atop m2 = f2 \<and> distinct [atop m4, f3, f2, f1] \<and>
         good_page M pv vp (pdpt c) \<and> good_page M pv vp (pdt c) \<and> good_page M pv vp (pt c))"

section \<open>A fake backend and a small machine\<close>

text \<open>
  The backend of the end-to-end scenario: the allocator hands out the pages of its pool
  in order (the null pointer once the pool is exhausted), the two translations are an
  offset pair, and a freed page goes back to the pool.
\<close>

definition fake_backend :: mmu_map_mbackend where
  "fake_backend =
     \<lparr>alloc = Some (\<lambda>h. case pool h of [] \<Rightarrow> (0, h) | p # ps \<Rightarrow> (p, h\<lparr>pool := ps\<rparr>)),
      free = Some (\<lambda>p h. h\<lparr>pool := p # pool h\<rparr>),
      ptov = Some (\<lambda>pa. pa + 0x200000),
      vtop = Some (\<lambda>v. v - 0x200000)\<rparr>"

definition no_backend :: mmu_map_mbackend where
  "no_backend = \<lparr>alloc = None, free = None, ptov = None, vtop = None\<rparr>"

text \<open>Storage that was used for something else before: four non-null words where the
  table references will be, and no validity tag.\<close>

definition stale_storage :: mmu_map_index where
  "stale_storage =
     \<lparr>pml4t = 0x1000, pdpt = 0x2000, pdt = 0x3000, pt = 0x4000, ptmb = no_backend, sanity = 0\<rparr>"

text \<open>A machine whose physical memory is mapped at virtual address 0x200000 and lies at
  machine address 0x100000; nothing is mapped below 0x200000, the null page included.\<close>

definition scenario_machine :: machine where
  "scenario_machine =
     \<lparr>mmu = (\<lambda>a. if a < 0x200000 then None else Some (a - 0x100000)),
      xpmap_ptom = (\<lambda>pa. pa + 0x100000),
      xpmap_mtop = (\<lambda>ma. ma - 0x100000),
      VM_MAX_KERNEL_ADDRESS = 0xfffffffffffff000\<rparr>"

definition scenario_pmap :: pmap where
  "scenario_pmap = \<lparr>pm_pml4 = 0x210000\<rparr>"

definition scenario_va :: "64 word" where
  "scenario_va = 0x0000100020003000"

definition fresh_ctx :: mmu_map_index where
  "fresh_ctx = \<lparr>pml4t = 0, pdpt = 0, pdt = 0, pt = 0, ptmb = fake_backend, sanity = SANE\<rparr>"

text \<open>An initialised context of the same backend whose four references hold other
  addresses, left by a walk for some other address.\<close>

definition stale_ctx :: mmu_map_index where
  "stale_ctx =
     \<lparr>pml4t = 0x310000, pdpt = 0x311000, pdt = 0x312000, pt = 0x313000,
      ptmb = fake_backend, sanity = SANE\<rparr>"

text \<open>All memory zero, three pages in the allocator's pool, nothing queued.\<close>

definition fresh_world :: world where
  "fresh_world =
     \<lparr>hp = \<lparr>mem = (\<lambda>_. 0), pool = [0x211000, 0x212000, 0x213000]\<rparr>, queue = [], trace = []\<rparr>"

text \<open>The context and the world after \<open>hold\<close> of \<open>scenario_va\<close> (lemma \<open>scenario_hold\<close>).\<close>

definition held_ctx :: mmu_map_index where
  "held_ctx =
     \<lparr>pml4t = 0x210000, pdpt = 0x211000, pdt = 0x212000, pt = 0x213000,
      ptmb = fake_backend, sanity = SANE\<rparr>"

definition held_world :: world where
  "held_world =
     \<lparr>hp = \<lparr>mem = (\<lambda>_. 0)(0x110100 := 0x111007, 0x111000 := 0x112007, 0x112800 := 0x113007),
            pool = []\<rparr>,
      queue = [],
      trace = [EvLoad 0x210100 0, EvAlloc 0x211000, EvQueue 0x110100 0x111007, EvFlush,
               EvLoad 0x211000 0, EvAlloc 0x212000, EvQueue 0x111000 0x112007, EvFlush,
               EvLoad 0x212800 0, EvAlloc 0x213000, EvQueue 0x112800 0x113007, EvFlush]\<rparr>"

text \<open>The same tables with one live mapping of a sibling address in the leaf table.\<close>

definition busy_world :: world where
  "busy_world =
     \<lparr>hp = \<lparr>mem = (\<lambda>_. 0)(0x110100 := 0x111007, 0x111000 := 0x112007, 0x112800 := 0x113007,
                            0x113020 := 0x500007),
            pool = []\<rparr>,
      queue = [], trace = []\<rparr>"

text \<open>A hierarchy whose top-level entry is valid and names the machine frame of physical
  address 0; the tables it leads to have valid entries for \<open>scenario_va\<close> as well.\<close>

definition phys0_world :: world where
  "phys0_world =
     \<lparr>hp = \<lparr>mem = (\<lambda>_. 0)(0x110100 := 0x100001, 0x100000 := 0x112007, 0x112800 := 0x113007),
            pool = []\<rparr>,
      queue = [], trace = []\<rparr>"

text \<open>A hierarchy in which the page directory of address 0x212000 is the page at 0x212000
  itself, and no leaf table exists for that address.\<close>

definition selfmap_va :: "64 word" where
  "selfmap_va = 0x212000"

definition selfmap_world :: world where
  "selfmap_world =
     \<lparr>hp = \<lparr>mem = (\<lambda>_. 0)(0x110000 := 0x111007, 0x111000 := 0x112007), pool = []\<rparr>,
      queue = [], trace = []\<rparr>"

definition inspected_ctx :: mmu_map_index where
  "inspected_ctx =
     \<lparr>pml4t = 0x210000, pdpt = 0x211000, pdt = 0x212000, pt = 0,
      ptmb = fake_backend, sanity = SANE\<rparr>"

text \<open>The same machine with every virtual address translated, the null page included,
  and a world in which the entry at virtual address 8, in the null page, is not zero.\<close>

definition lowmem_machine :: machine where
  "lowmem_machine = scenario_machine\<lparr>mmu := (\<lambda>a. Some (a - 0x100000))\<rparr>"

definition lowmem_world :: world where
  "lowmem_world =
     \<lparr>hp = \<lparr>mem = (\<lambda>_. 0)(0xfffffffffff00008 := 0xf000ff53f000ff53,
                            0x110100 := 0x111007, 0x111000 := 0x112007, 0x112800 := 0x113007),
            pool = []\<rparr>,
      queue = [], trace = []\<rparr>"

section \<open>Index extraction stays inside a table page\<close>

lemma small_index:
  fixes x :: "64 word"
  assumes "unat x < 512"
  shows "sint (ucast x :: 32 word) = int (unat x)"
proof -
  have b: "uint x < 512" unfolding uint_nat using assms by linarith
  have a: "uint (ucast x :: 32 word) = uint x"
    using b by (simp add: unsigned_ucast_eq take_bit_eq_mod)
  have "sint (ucast x :: 32 word) = signed_take_bit 31 (uint (ucast x :: 32 word))"
    by (simp add: sint_uint)
  also have "\<dots> = uint x"
  proof -
    have "(- (2 ^ 31) :: int) \<le> 0" by simp
    also have "0 \<le> uint x" by simp
    finally have lo: "- (2 ^ 31) \<le> uint x" .
    have hi: "uint x < 2 ^ 31" using b by simp
    show ?thesis unfolding a using lo hi by (rule signed_take_bit_int_eq_self)
  qed
  finally show ?thesis by (simp only: uint_nat)
qed

lemma field9:
  fixes va :: "64 word"
  assumes "n = k + 9"
  shows "unat (drop_bit k (va AND (push_bit n 1 - 1))) < 512"
proof -
  have m: "va AND (push_bit n 1 - 1) = take_bit n va"
    by (simp add: take_bit_eq_mask mask_eq_decr_exp)
  have "unat (drop_bit k (take_bit n va)) = drop_bit k (unat (take_bit n va))"
    by (rule unat_drop_bit_eq)
  also have "\<dots> = drop_bit k (take_bit n (unat va))"
    by (simp only: unsigned_take_bit_eq)
  also have "\<dots> = (unat va mod 2 ^ n) div 2 ^ k"
    by (simp only: drop_bit_eq_div take_bit_eq_mod)
  also have "\<dots> < 512"
  proof -
    have "unat va mod 2 ^ n < 2 ^ k * 512"
      using assms by (simp add: power_add mult.commute)
    thus ?thesis by (simp add: less_mult_imp_div_less mult.commute)
  qed
  finally show ?thesis unfolding m .
qed

lemma pml4t_index_nat:
  "pml4t_index va = int (unat (drop_bit PML4SHIFT (va AND (push_bit 48 1 - 1))))"
  unfolding pml4t_index_def Let_def
  by (rule small_index) (simp only: PML4SHIFT_def field9)

lemma pdpt_index_nat:
  "pdpt_index va = int (unat (drop_bit PDPSHIFT (va AND PML4MASK)))"
  unfolding pdpt_index_def PML4MASK_def
  by (rule small_index) (simp only: PML4SHIFT_def PDPSHIFT_def field9)

lemma pdt_index_nat:
  "pdt_index va = int (unat (drop_bit PDRSHIFT (va AND PDPMASK)))"
  unfolding pdt_index_def PDPMASK_def
  by (rule small_index) (simp only: PDPSHIFT_def PDRSHIFT_def field9)

lemma pml4t_index_range: "0 \<le> pml4t_index va \<and> pml4t_index va \<le> 511"
  using field9 [of 48 39 va] unfolding pml4t_index_nat PML4SHIFT_def by linarith

lemma pdpt_index_range: "0 \<le> pdpt_index va \<and> pdpt_index va \<le> 511"
  using field9 [of 39 30 va]
  unfolding pdpt_index_nat PML4MASK_def PML4SHIFT_def PDPSHIFT_def by linarith

lemma pdt_index_range: "0 \<le> pdt_index va \<and> pdt_index va \<le> 511"
  using field9 [of 30 21 va]
  unfolding pdt_index_nat PDPMASK_def PDPSHIFT_def PDRSHIFT_def by linarith

lemma pml4t_index_sign: "pml4t_index (take_bit 48 va) = pml4t_index va"
proof -
  have "take_bit 48 va AND (push_bit 48 1 - 1) = va AND (push_bit 48 1 - 1)"
    by (simp add: take_bit_eq_mask mask_eq_decr_exp)
  thus ?thesis unfolding pml4t_index_def Let_def by (simp only:)
qed

lemma slot_offset:
  assumes "0 \<le> i" "i \<le> 511"
  shows "unat (slot t i - t) < PAGE_SIZE"
proof -
  have "slot t i - t = of_nat (8 * nat i)"
    using assms(1) by (simp add: slot_def)
  moreover have "unat (of_nat (8 * nat i) :: 64 word) = 8 * nat i"
  proof -
    have "8 * nat i < 2 ^ 64" using assms by simp
    thus ?thesis by (simp add: unat_of_nat del: of_nat_mult)
  qed
  ultimately show ?thesis using assms by (simp add: PAGE_SIZE_def del: of_nat_mult)
qed

text \<open>
  C10. For every 64-bit virtual address each of the three index helpers returns a value
  between 0 and 511, so the entry it selects in a table at \<open>t\<close> lies less than a page
  above \<open>t\<close>, inside the 512-entry table page; the top-level index depends on the low 48
  bits of the address only, the sign-extension bits from bit 48 upwards do not affect it.
\<close>

theorem index_helpers_in_table:
  "0 \<le> pml4t_index va \<and> pml4t_index va \<le> 511 \<and>
   0 \<le> pdpt_index va \<and> pdpt_index va \<le> 511 \<and>
   0 \<le> pdt_index va \<and> pdt_index va \<le> 511 \<and>
   unat (slot t (pml4t_index va) - t) < PAGE_SIZE \<and>
   unat (slot t (pdpt_index va) - t) < PAGE_SIZE \<and>
   unat (slot t (pdt_index va) - t) < PAGE_SIZE \<and>
   pml4t_index va = pml4t_index (take_bit 48 va)"
  using pml4t_index_range [of va] pdpt_index_range [of va] pdt_index_range [of va]
    pml4t_index_sign [of va]
  by (simp add: slot_offset)

section \<open>Context initialisation\<close>

text \<open>
  C8. Initialisation fails with a contract violation exactly when the storage pointer is
  null, the backend pointer is null, the storage already carries the validity tag, or one
  of the callbacks allocate, ptov, vtop is missing; whether the free callback is present
  makes no difference, and initialisation never fails in another way.
\<close>

theorem init_fails_exactly:
  "(mmu_map_t_init addr mb = Inl Panic) =
     (addr = None \<or> mb = None \<or>
      (\<exists>pti b. addr = Some pti \<and> mb = Some b \<and>
         (sanity pti = SANE \<or> alloc b = None \<or> ptov b = None \<or> vtop b = None)))
   \<and> (mmu_map_t_init (Some pti) (Some (b\<lparr>free := None\<rparr>)) = Inl Panic) =
       (mmu_map_t_init (Some pti) (Some b) = Inl Panic)
   \<and> mmu_map_t_init addr mb \<noteq> Inl Fault"
  by (auto simp: mmu_map_t_init_def bindE_def KASSERT_def Option.is_none_def
      split: option.splits)

text \<open>
  C3 as stated fails: the four table references are not cleared. Initialising storage
  that held four non-null words succeeds and leaves them in place.
\<close>

theorem init_leaves_stale_references:
  "mmu_map_t_init (Some stale_storage) (Some fake_backend) =
     Inr (stale_storage\<lparr>ptmb := fake_backend, sanity := SANE\<rparr>)
   \<and> pml4t (stale_storage\<lparr>ptmb := fake_backend, sanity := SANE\<rparr>) = 0x1000
   \<and> pdpt (stale_storage\<lparr>ptmb := fake_backend, sanity := SANE\<rparr>) = 0x2000
   \<and> pdt (stale_storage\<lparr>ptmb := fake_backend, sanity := SANE\<rparr>) = 0x3000
   \<and> pt (stale_storage\<lparr>ptmb := fake_backend, sanity := SANE\<rparr>) = 0x4000"
  by (simp add: mmu_map_t_init_def bindE_def KASSERT_def stale_storage_def fake_backend_def
      SANE_def)

text \<open>
  C3, amended. After a successful initialisation (storage and backend given, the three
  required callbacks present, no validity tag in the storage) the validity tag is set,
  the backend contract is copied into the context, and the four table references are
  what the storage held before: they are absent if and only if the caller had zeroed
  them.
\<close>

theorem init_sets_tag_and_contract:
  assumes "sanity pti \<noteq> SANE"
    and "alloc b \<noteq> None" and "ptov b \<noteq> None" and "vtop b \<noteq> None"
  shows "mmu_map_t_init (Some pti) (Some b) = Inr (pti\<lparr>ptmb := b, sanity := SANE\<rparr>)
    \<and> sanity (pti\<lparr>ptmb := b, sanity := SANE\<rparr>) = SANE
    \<and> ptmb (pti\<lparr>ptmb := b, sanity := SANE\<rparr>) = b
    \<and> pml4t (pti\<lparr>ptmb := b, sanity := SANE\<rparr>) = pml4t pti
    \<and> pdpt (pti\<lparr>ptmb := b, sanity := SANE\<rparr>) = pdpt pti
    \<and> pdt (pti\<lparr>ptmb := b, sanity := SANE\<rparr>) = pdt pti
    \<and> pt (pti\<lparr>ptmb := b, sanity := SANE\<rparr>) = pt pti"
  using assms
  by (simp add: mmu_map_t_init_def bindE_def KASSERT_def Option.is_none_def)

theorem init_sets_tag_and_contract_witness:
  "mmu_map_t_init (Some (stale_storage\<lparr>pml4t := 0, pdpt := 0, pdt := 0, pt := 0\<rparr>))
     (Some fake_backend) =
     Inr \<lparr>pml4t = 0, pdpt = 0, pdt = 0, pt = 0, ptmb = fake_backend, sanity = SANE\<rparr>"
  using init_sets_tag_and_contract
    [of "stale_storage\<lparr>pml4t := 0, pdpt := 0, pdt := 0, pt := 0\<rparr>" fake_backend]
  by (simp add: stale_storage_def fake_backend_def SANE_def)

section \<open>The walk, level by level\<close>

lemma get_next_eqs:
  "pmap_get_pdpt M va t w = get_next M va t (slot t (pml4t_index va)) w"
  "pmap_get_pdt M va t w = get_next M va t (slot t (pdpt_index va)) w"
  "pmap_get_pt M va t w = get_next M va t (slot t (pdt_index va)) w"
  by (simp_all add: pmap_get_pdpt_def pmap_get_pdt_def pmap_get_pt_def get_next_def)

lemma call_upd [simp]:
  "call_alloc (pti\<lparr>pml4t := x\<rparr>) = call_alloc pti"
  "call_alloc (pti\<lparr>pdpt := x\<rparr>) = call_alloc pti"
  "call_alloc (pti\<lparr>pdt := x\<rparr>) = call_alloc pti"
  "call_alloc (pti\<lparr>pt := x\<rparr>) = call_alloc pti"
  "call_vtop (pti\<lparr>pml4t := x\<rparr>) = call_vtop pti"
  "call_vtop (pti\<lparr>pdpt := x\<rparr>) = call_vtop pti"
  "call_vtop (pti\<lparr>pdt := x\<rparr>) = call_vtop pti"
  "call_vtop (pti\<lparr>pt := x\<rparr>) = call_vtop pti"
  "call_ptov (pti\<lparr>pml4t := x\<rparr>) = call_ptov pti"
  "call_ptov (pti\<lparr>pdpt := x\<rparr>) = call_ptov pti"
  "call_ptov (pti\<lparr>pdt := x\<rparr>) = call_ptov pti"
  "call_ptov (pti\<lparr>pt := x\<rparr>) = call_ptov pti"
  by (simp_all add: call_alloc_def call_vtop_def call_ptov_def fun_eq_iff)

lemma bindE_simps [simp]:
  "bindE (Inl e) f = Inl e"
  "bindE (Inr x) f = f x"
  by (simp_all add: bindE_def)

lemma bindE_assoc: "bindE (bindE m f) g = bindE m (\<lambda>x. bindE (f x) g)"
  by (simp add: bindE_def split: sum.splits)

lemma bindE_if: "bindE (if c then a else b) f = (if c then bindE a f else bindE b f)"
  by simp

lemma hold_factored:
  "mmu_map_hold_va M (Some p) (Some pti) va w =
     bindE (KASSERT (sanity pti = SANE)) (\<lambda>_.
     bindE (KASSERT (pm_pml4 p \<noteq> 0)) (\<lambda>_.
     bindE (hold_level M va pti (pm_pml4 p) (slot (pm_pml4 p) (pml4t_index va)) w) (\<lambda>(a3, t3, w).
     bindE (hold_level M va pti t3 (slot t3 (pdpt_index va)) w) (\<lambda>(a2, t2, w).
     bindE (hold_level M va pti t2 (slot t2 (pdt_index va)) w) (\<lambda>(a1, t1, w).
       Inr (a3 \<or> a2 \<or> a1, pti\<lparr>pml4t := pm_pml4 p, pdpt := t3, pdt := t2, pt := t1\<rparr>, w))))))"
  unfolding mmu_map_hold_va_def get_next_eqs hold_level_def pmap_get_pml4t_def
  by (simp add: Let_def bindE_assoc bindE_if split_def cong: if_cong)

lemma inspect_factored:
  "mmu_map_inspect_va M (Some p) (Some pti) va w =
     bindE (KASSERT (sanity pti = SANE)) (\<lambda>_.
     bindE (KASSERT (pm_pml4 p \<noteq> 0)) (\<lambda>_.
     let pti = pti\<lparr>pml4t := pm_pml4 p\<rparr> in
     bindE (inspect_level M va pti (pml4t pti) (slot (pml4t pti) (pml4t_index va)) w) (\<lambda>(r, w).
     case r of None \<Rightarrow> Inr (False, pti, w) | Some v \<Rightarrow>
     let pti = pti\<lparr>pdpt := v\<rparr> in
     bindE (inspect_level M va pti (pdpt pti) (slot (pdpt pti) (pdpt_index va)) w) (\<lambda>(r, w).
     case r of None \<Rightarrow> Inr (False, pti, w) | Some v \<Rightarrow>
     let pti = pti\<lparr>pdt := v\<rparr> in
     bindE (inspect_level M va pti (pdt pti) (slot (pdt pti) (pdt_index va)) w) (\<lambda>(r, w).
     case r of None \<Rightarrow> Inr (False, pti, w) | Some v \<Rightarrow>
       Inr (True, pti\<lparr>pt := v\<rparr>, w))))))"
  unfolding mmu_map_inspect_va_def get_next_eqs inspect_level_def pmap_get_pml4t_def
  by (simp add: Let_def bindE_assoc bindE_if split_def cong: if_cong)

lemma get_next_Inr:
  assumes "get_next M va t s w = Inr (pa, w')"
  shows "\<exists>ma. mmu M s = Some ma \<and> w' = w\<lparr>trace := trace w @ [EvLoad s (mem (hp w) ma)]\<rparr>
           \<and> pa = (if present M (mem (hp w) ma) then xpmap_mtop M (mem (hp w) ma AND PG_FRAME) else 0)
           \<and> va \<le> VM_MAX_KERNEL_ADDRESS M \<and> t \<noteq> 0"
  using assms
  by (auto simp: get_next_def KASSERT_def load_def present_def split: if_splits option.splits)

lemma hold_level_Inr:
  assumes "hold_level M va pti t s w = Inr (a, child, w')"
    and "alloc (ptmb pti) = Some al" and "ptov (ptmb pti) = Some pv" and "vtop (ptmb pti) = Some vp"
  shows "\<exists>ma. mmu M s = Some ma \<and> va \<le> VM_MAX_KERNEL_ADDRESS M \<and> t \<noteq> 0 \<and>
     (if present M (mem (hp w) ma)
      then \<not> a \<and> child = pv (xpmap_mtop M (mem (hp w) ma AND PG_FRAME))
           \<and> w' = w\<lparr>trace := trace w @ [EvLoad s (mem (hp w) ma)]\<rparr>
      else a \<and> (\<exists>h'. al (hp w) = (child, h') \<and>
             w' = xen_flush_queue (xen_queue_pt_update (xpmap_ptom M (vp s)) (entry_val M (vp child))
                    (w\<lparr>hp := h', trace := trace w @ [EvLoad s (mem (hp w) ma), EvAlloc child]\<rparr>))))"
proof -
  from assms(1) obtain pa w1 where g: "get_next M va t s w = Inr (pa, w1)"
    and r: "(if pa = 0 then
         bindE (call_alloc pti w1) (\<lambda>(p, w).
         bindE (call_vtop pti s) (\<lambda>s_pa.
         bindE (call_vtop pti p) (\<lambda>p_pa.
           Inr (True, p,
             xen_flush_queue (xen_queue_pt_update (xpmap_ptom M s_pa)
               (xpmap_ptom M p_pa OR PG_RW OR PG_V OR PG_U) w)))))
       else bindE (call_ptov pti pa) (\<lambda>v. Inr (False, v, w1))) = Inr (a, child, w')"
    by (auto simp: hold_level_def bindE_def split: sum.splits)
  from get_next_Inr [OF g] obtain ma where ma: "mmu M s = Some ma"
    and w1: "w1 = w\<lparr>trace := trace w @ [EvLoad s (mem (hp w) ma)]\<rparr>"
    and pa: "pa = (if present M (mem (hp w) ma) then xpmap_mtop M (mem (hp w) ma AND PG_FRAME) else 0)"
    and pre: "va \<le> VM_MAX_KERNEL_ADDRESS M" "t \<noteq> 0"
    by blast
  show ?thesis
  proof (cases "present M (mem (hp w) ma)")
    case True
    hence "pa \<noteq> 0" using pa by (simp add: present_def)
    with r True pa w1 assms(3) ma pre show ?thesis
      by (auto simp: call_ptov_def)
  next
    case False
    hence "pa = 0" using pa by simp
    with r False w1 assms(2,4) ma pre show ?thesis
      by (auto simp: call_alloc_def call_vtop_def entry_val_def split: prod.splits)
  qed
qed

lemma entry_val_valid: "entry_val M x AND PG_V \<noteq> 0"
proof -
  have "bit (entry_val M x AND PG_V) 0"
    by (simp add: entry_val_def PG_V_def PG_RW_def PG_U_def bit_simps)
  thus ?thesis by auto
qed

lemma entry_val_frame: "entry_val M x AND PG_FRAME = xpmap_ptom M x AND PG_FRAME"
  by (simp add: entry_val_def PG_V_def PG_RW_def PG_U_def PG_FRAME_def bit.conj_disj_distrib2)

lemma entry_val_present:
  assumes "good_page M pv vp p"
  shows "present M (entry_val M (vp p))" "pv (xpmap_mtop M (entry_val M (vp p) AND PG_FRAME)) = p"
  using assms by (simp_all add: present_def entry_val_valid entry_val_frame good_page_def)

lemma flush_single:
  assumes "queue w = []"
  shows "xen_flush_queue (xen_queue_pt_update ma v w) =
           w\<lparr>hp := (hp w)\<lparr>mem := (mem (hp w))(ma := v)\<rparr>, trace := trace w @ [EvQueue ma v, EvFlush]\<rparr>"
  using assms by (simp add: xen_flush_queue_def xen_queue_pt_update_def)

lemma level_resolves:
  assumes run: "hold_level M va pti t s w = Inr (a, child, w')"
    and B: "alloc (ptmb pti) = Some al" "ptov (ptmb pti) = Some pv" "vtop (ptmb pti) = Some vp"
    and q: "queue w = []"
    and coh: "mmu M s = Some (xpmap_ptom M (vp s))"
    and good: "good_page M pv vp child"
  shows "resolves M pv w' s child \<and> queue w' = []"
  using hold_level_Inr [OF run B] q coh entry_val_present [OF good]
  by (auto simp: resolves_def flush_single split: if_splits)

lemma level_frame:
  assumes run: "hold_level M va pti t s w = Inr (a, child, w')"
    and B: "alloc (ptmb pti) = Some al" "ptov (ptmb pti) = Some pv" "vtop (ptmb pti) = Some vp"
    and q: "queue w = []"
    and conf: "alloc_confined M vp al"
    and ne: "ma \<noteq> xpmap_ptom M (vp s)" "atop ma \<noteq> atop (xpmap_ptom M (vp child))"
  shows "mem (hp w') ma = mem (hp w) ma"
proof -
  from hold_level_Inr [OF run B] obtain m where m: "mmu M s = Some m" and
    c: "if present M (mem (hp w) m)
      then \<not> a \<and> child = pv (xpmap_mtop M (mem (hp w) m AND PG_FRAME))
           \<and> w' = w\<lparr>trace := trace w @ [EvLoad s (mem (hp w) m)]\<rparr>
      else a \<and> (\<exists>h'. al (hp w) = (child, h') \<and>
             w' = xen_flush_queue (xen_queue_pt_update (xpmap_ptom M (vp s)) (entry_val M (vp child))
                    (w\<lparr>hp := h', trace := trace w @ [EvLoad s (mem (hp w) m), EvAlloc child]\<rparr>)))"
    by blast
  show ?thesis
  proof (cases "present M (mem (hp w) m)")
    case True
    with c show ?thesis by simp
  next
    case False
    with c obtain h' where al: "al (hp w) = (child, h')"
      and w': "w' = xen_flush_queue (xen_queue_pt_update (xpmap_ptom M (vp s)) (entry_val M (vp child))
                    (w\<lparr>hp := h', trace := trace w @ [EvLoad s (mem (hp w) m), EvAlloc child]\<rparr>))"
      by auto
    from conf al ne(2) have "mem h' ma = mem (hp w) ma"
      unfolding alloc_confined_def by (metis fst_conv snd_conv)
    with w' q ne(1) show ?thesis by (simp add: flush_single)
  qed
qed

lemma resolves_frame:
  assumes "resolves M pv w s child" "mmu M s = Some ma" "mem (hp w') ma = mem (hp w) ma"
  shows "resolves M pv w' s child"
  using assms by (simp add: resolves_def)

lemma hold_steps:
  assumes "mmu_map_hold_va M pm (Some pti) va w = Inr (a, c1, w1)"
  shows "\<exists>p a3 t3 wA a2 t2 wB a1 t1.
    pm = Some p \<and> sanity pti = SANE \<and> pm_pml4 p \<noteq> 0 \<and>
    hold_level M va pti (pm_pml4 p) (slot (pm_pml4 p) (pml4t_index va)) w = Inr (a3, t3, wA) \<and>
    hold_level M va pti t3 (slot t3 (pdpt_index va)) wA = Inr (a2, t2, wB) \<and>
    hold_level M va pti t2 (slot t2 (pdt_index va)) wB = Inr (a1, t1, w1) \<and>
    c1 = pti\<lparr>pml4t := pm_pml4 p, pdpt := t3, pdt := t2, pt := t1\<rparr> \<and>
    a = (a3 \<or> a2 \<or> a1)"
proof -
  from assms obtain p where p: "pm = Some p"
    by (cases pm) (simp_all add: mmu_map_hold_va_def)
  from assms [unfolded p hold_factored] have s: "sanity pti = SANE" and r: "pm_pml4 p \<noteq> 0"
    by (auto simp: KASSERT_def split: if_splits)
  from assms [unfolded p hold_factored] s r obtain x3 where
    L4: "hold_level M va pti (pm_pml4 p) (slot (pm_pml4 p) (pml4t_index va)) w = Inr x3"
    by (cases "hold_level M va pti (pm_pml4 p) (slot (pm_pml4 p) (pml4t_index va)) w")
       (simp_all add: KASSERT_def)
  obtain a3 t3 wA where x3: "x3 = (a3, t3, wA)" by (cases x3)
  from assms [unfolded p hold_factored] s r L4 x3 obtain x2 where
    L3: "hold_level M va pti t3 (slot t3 (pdpt_index va)) wA = Inr x2"
    by (cases "hold_level M va pti t3 (slot t3 (pdpt_index va)) wA") (simp_all add: KASSERT_def)
  obtain a2 t2 wB where x2: "x2 = (a2, t2, wB)" by (cases x2)
  from assms [unfolded p hold_factored] s r L4 x3 L3 x2 obtain x1 where
    L2: "hold_level M va pti t2 (slot t2 (pdt_index va)) wB = Inr x1"
    by (cases "hold_level M va pti t2 (slot t2 (pdt_index va)) wB") (simp_all add: KASSERT_def)
  obtain a1 t1 wC where x1: "x1 = (a1, t1, wC)" by (cases x1)
  from assms [unfolded p hold_factored] s r L4 x3 L3 x2 L2 x1
  have "a = (a3 \<or> a2 \<or> a1)" "c1 = pti\<lparr>pml4t := pm_pml4 p, pdpt := t3, pdt := t2, pt := t1\<rparr>"
    "w1 = wC"
    by (simp_all add: KASSERT_def)
  with p s r L4 x3 L3 x2 L2 x1 show ?thesis by blast
qed

lemma hold_resolves:
  assumes run: "mmu_map_hold_va M pm (Some pti) va w = Inr (a, c1, w1)"
    and B: "alloc (ptmb pti) = Some al" "ptov (ptmb pti) = Some pv" "vtop (ptmb pti) = Some vp"
    and q: "queue w = []"
    and conf: "alloc_confined M vp al"
    and wp: "well_placed M pv vp c1 va"
  shows "resolved M pv c1 va w1 \<and> queue w1 = []"
proof -
  from run obtain p a3 t3 wA a2 t2 wB a1 t1 where
    p: "pm = Some p" and
    L4: "hold_level M va pti (pm_pml4 p) (slot (pm_pml4 p) (pml4t_index va)) w = Inr (a3, t3, wA)" and
    L3: "hold_level M va pti t3 (slot t3 (pdpt_index va)) wA = Inr (a2, t2, wB)" and
    L2: "hold_level M va pti t2 (slot t2 (pdt_index va)) wB = Inr (a1, t1, w1)" and
    c1: "c1 = pti\<lparr>pml4t := pm_pml4 p, pdpt := t3, pdt := t2, pt := t1\<rparr>"
    using hold_steps [OF run] by blast
  define s4 where "s4 = slot (pm_pml4 p) (pml4t_index va)"
  define s3 where "s3 = slot t3 (pdpt_index va)"
  define s2 where "s2 = slot t2 (pdt_index va)"
  define m4 where "m4 = xpmap_ptom M (vp s4)"
  define m3 where "m3 = xpmap_ptom M (vp s3)"
  define m2 where "m2 = xpmap_ptom M (vp s2)"
  note defs = s4_def s3_def s2_def m4_def m3_def m2_def
  from wp have coh: "mmu M s4 = Some m4" "mmu M s3 = Some m3" "mmu M s2 = Some m2"
    and good: "good_page M pv vp t3" "good_page M pv vp t2" "good_page M pv vp t1"
    and fr: "atop m3 = atop (xpmap_ptom M (vp t3))" "atop m2 = atop (xpmap_ptom M (vp t2))"
    and dis: "distinct [atop m4, atop (xpmap_ptom M (vp t3)), atop (xpmap_ptom M (vp t2)),
                atop (xpmap_ptom M (vp t1))]"
    unfolding well_placed_def c1 defs by (simp_all add: Let_def)
  from level_resolves [OF L4 B q coh(1) [unfolded defs] good(1)]
  have R4: "resolves M pv wA s4 t3" and qA: "queue wA = []" by (simp_all add: defs)
  from level_resolves [OF L3 B qA coh(2) [unfolded defs] good(2)]
  have R3: "resolves M pv wB s3 t2" and qB: "queue wB = []" by (simp_all add: defs)
  from level_resolves [OF L2 B qB coh(3) [unfolded defs] good(3)]
  have R2: "resolves M pv w1 s2 t1" and q1: "queue w1 = []" by (simp_all add: defs)
  have ne43: "m4 \<noteq> m3" and ne42: "m4 \<noteq> m2" and ne32: "m3 \<noteq> m2"
    using fr dis by auto
  have "mem (hp wB) m4 = mem (hp wA) m4"
    using level_frame [OF L3 B qA conf, of m4] ne43 dis by (simp add: defs)
  moreover have "mem (hp w1) m4 = mem (hp wB) m4"
    using level_frame [OF L2 B qB conf, of m4] ne42 dis by (simp add: defs)
  ultimately have "resolves M pv w1 s4 t3"
    using resolves_frame [OF R4 coh(1), of w1] by simp
  moreover have "mem (hp w1) m3 = mem (hp wB) m3"
    using level_frame [OF L2 B qB conf, of m3] ne32 fr dis by (simp add: defs)
  hence "resolves M pv w1 s3 t2"
    using resolves_frame [OF R3 coh(2), of w1] by simp
  ultimately show ?thesis
    using R2 q1 by (simp add: resolved_def c1 defs)
qed

lemma hold_ready:
  assumes run: "mmu_map_hold_va M pm (Some pti) va w = Inr (a, c1, w1)"
    and B: "alloc (ptmb pti) = Some al" "ptov (ptmb pti) = Some pv" "vtop (ptmb pti) = Some vp"
  shows "sanity c1 = SANE \<and> ptmb c1 = ptmb pti \<and> pm = Some \<lparr>pm_pml4 = pml4t c1\<rparr> \<and>
         pml4t c1 \<noteq> 0 \<and> pdpt c1 \<noteq> 0 \<and> pdt c1 \<noteq> 0 \<and> va \<le> VM_MAX_KERNEL_ADDRESS M"
proof -
  from hold_steps [OF run] obtain p a3 t3 wA a2 t2 wB a1 t1 where
    p: "pm = Some p" "sanity pti = SANE" "pm_pml4 p \<noteq> 0" and
    L3: "hold_level M va pti t3 (slot t3 (pdpt_index va)) wA = Inr (a2, t2, wB)" and
    L2: "hold_level M va pti t2 (slot t2 (pdt_index va)) wB = Inr (a1, t1, w1)" and
    c1: "c1 = pti\<lparr>pml4t := pm_pml4 p, pdpt := t3, pdt := t2, pt := t1\<rparr>"
    by blast
  from hold_level_Inr [OF L3 B] hold_level_Inr [OF L2 B] p c1 show ?thesis
    by auto
qed

lemma resolves_trace [simp]: "resolves M pv (w\<lparr>trace := tr\<rparr>) s child = resolves M pv w s child"
  by (simp add: resolves_def split: option.splits)

lemma inspect_level_resolves:
  assumes "resolves M pv w s child" "ptov (ptmb c) = Some pv"
    "va \<le> VM_MAX_KERNEL_ADDRESS M" "t \<noteq> 0"
  shows "\<exists>e. inspect_level M va c t s w = Inr (Some child, w\<lparr>trace := trace w @ [EvLoad s e]\<rparr>)"
  using assms
  by (auto simp: inspect_level_def get_next_def resolves_def present_def KASSERT_def load_def
      call_ptov_def split: option.splits)

lemma hold_level_resolves:
  assumes "resolves M pv w s child" "ptov (ptmb c) = Some pv"
    "va \<le> VM_MAX_KERNEL_ADDRESS M" "t \<noteq> 0"
  shows "\<exists>e. hold_level M va c t s w = Inr (False, child, w\<lparr>trace := trace w @ [EvLoad s e]\<rparr>)"
  using assms
  by (auto simp: hold_level_def get_next_def resolves_def present_def KASSERT_def load_def
      call_ptov_def split: option.splits)

lemma inspect_of_resolved:
  assumes res: "resolved M pv c va w"
    and rdy: "pml4t c \<noteq> 0" "pdpt c \<noteq> 0" "pdt c \<noteq> 0" "va \<le> VM_MAX_KERNEL_ADDRESS M"
    and ci: "sanity ci = SANE" "ptov (ptmb ci) = Some pv"
  shows "\<exists>e4 e3 e2. mmu_map_inspect_va M (Some \<lparr>pm_pml4 = pml4t c\<rparr>) (Some ci) va w =
     Inr (True, ci\<lparr>pml4t := pml4t c, pdpt := pdpt c, pdt := pdt c, pt := pt c\<rparr>,
       w\<lparr>trace := trace w @
         [EvLoad (slot (pml4t c) (pml4t_index va)) e4,
          EvLoad (slot (pdpt c) (pdpt_index va)) e3,
          EvLoad (slot (pdt c) (pdt_index va)) e2]\<rparr>)"
proof -
  from res have r4: "resolves M pv w (slot (pml4t c) (pml4t_index va)) (pdpt c)"
    and r3: "resolves M pv w (slot (pdpt c) (pdpt_index va)) (pdt c)"
    and r2: "resolves M pv w (slot (pdt c) (pdt_index va)) (pt c)"
    by (simp_all add: resolved_def)
  define c4 where "c4 = ci\<lparr>pml4t := pml4t c\<rparr>"
  define c3 where "c3 = c4\<lparr>pdpt := pdpt c\<rparr>"
  define c2 where "c2 = c3\<lparr>pdt := pdt c\<rparr>"
  have pv4: "ptov (ptmb c4) = Some pv" using ci(2) by (simp add: c4_def)
  have pv3: "ptov (ptmb c3) = Some pv" using pv4 by (simp add: c3_def)
  have pv2: "ptov (ptmb c2) = Some pv" using pv3 by (simp add: c2_def)
  from inspect_level_resolves [OF r4 pv4 rdy(4) rdy(1)] obtain e4 where
    i4: "inspect_level M va c4 (pml4t c) (slot (pml4t c) (pml4t_index va)) w =
          Inr (Some (pdpt c), w\<lparr>trace := trace w @ [EvLoad (slot (pml4t c) (pml4t_index va)) e4]\<rparr>)"
    by blast
  define wA where "wA = w\<lparr>trace := trace w @ [EvLoad (slot (pml4t c) (pml4t_index va)) e4]\<rparr>"
  have r3': "resolves M pv wA (slot (pdpt c) (pdpt_index va)) (pdt c)"
    using r3 by (simp add: wA_def)
  from inspect_level_resolves [OF r3' pv3 rdy(4) rdy(2)] obtain e3 where
    i3: "inspect_level M va c3 (pdpt c) (slot (pdpt c) (pdpt_index va)) wA =
          Inr (Some (pdt c), wA\<lparr>trace := trace wA @ [EvLoad (slot (pdpt c) (pdpt_index va)) e3]\<rparr>)"
    by blast
  define wB where "wB = wA\<lparr>trace := trace wA @ [EvLoad (slot (pdpt c) (pdpt_index va)) e3]\<rparr>"
  have r2': "resolves M pv wB (slot (pdt c) (pdt_index va)) (pt c)"
    using r2 by (simp add: wA_def wB_def)
  from inspect_level_resolves [OF r2' pv2 rdy(4) rdy(3)] obtain e2 where
    i2: "inspect_level M va c2 (pdt c) (slot (pdt c) (pdt_index va)) wB =
          Inr (Some (pt c), wB\<lparr>trace := trace wB @ [EvLoad (slot (pdt c) (pdt_index va)) e2]\<rparr>)"
    by blast
  show ?thesis
    apply (rule exI [of _ e4], rule exI [of _ e3], rule exI [of _ e2])
    using i4 i3 i2 ci(1) rdy(1)
    by (simp add: inspect_factored KASSERT_def Let_def c4_def c3_def c2_def wA_def wB_def)
qed

lemma hold_of_resolved:
  assumes res: "resolved M pv c va w"
    and rdy: "sanity c = SANE" "ptov (ptmb c) = Some pv" "pml4t c \<noteq> 0" "pdpt c \<noteq> 0" "pdt c \<noteq> 0"
       "va \<le> VM_MAX_KERNEL_ADDRESS M"
  shows "\<exists>e4 e3 e2. mmu_map_hold_va M (Some \<lparr>pm_pml4 = pml4t c\<rparr>) (Some c) va w =
     Inr (False, c, w\<lparr>trace := trace w @
       [EvLoad (slot (pml4t c) (pml4t_index va)) e4,
        EvLoad (slot (pdpt c) (pdpt_index va)) e3,
        EvLoad (slot (pdt c) (pdt_index va)) e2]\<rparr>)"
proof -
  from res have r4: "resolves M pv w (slot (pml4t c) (pml4t_index va)) (pdpt c)"
    and r3: "resolves M pv w (slot (pdpt c) (pdpt_index va)) (pdt c)"
    and r2: "resolves M pv w (slot (pdt c) (pdt_index va)) (pt c)"
    by (simp_all add: resolved_def)
  from hold_level_resolves [OF r4 rdy(2) rdy(6) rdy(3)] obtain e4 where
    i4: "hold_level M va c (pml4t c) (slot (pml4t c) (pml4t_index va)) w =
          Inr (False, pdpt c, w\<lparr>trace := trace w @ [EvLoad (slot (pml4t c) (pml4t_index va)) e4]\<rparr>)"
    by blast
  define wA where "wA = w\<lparr>trace := trace w @ [EvLoad (slot (pml4t c) (pml4t_index va)) e4]\<rparr>"
  have r3': "resolves M pv wA (slot (pdpt c) (pdpt_index va)) (pdt c)"
    using r3 by (simp add: wA_def)
  from hold_level_resolves [OF r3' rdy(2) rdy(6) rdy(4)] obtain e3 where
    i3: "hold_level M va c (pdpt c) (slot (pdpt c) (pdpt_index va)) wA =
          Inr (False, pdt c, wA\<lparr>trace := trace wA @ [EvLoad (slot (pdpt c) (pdpt_index va)) e3]\<rparr>)"
    by blast
  define wB where "wB = wA\<lparr>trace := trace wA @ [EvLoad (slot (pdpt c) (pdpt_index va)) e3]\<rparr>"
  have r2': "resolves M pv wB (slot (pdt c) (pdt_index va)) (pt c)"
    using r2 by (simp add: wA_def wB_def)
  from hold_level_resolves [OF r2' rdy(2) rdy(6) rdy(5)] obtain e2 where
    i2: "hold_level M va c (pdt c) (slot (pdt c) (pdt_index va)) wB =
          Inr (False, pt c, wB\<lparr>trace := trace wB @ [EvLoad (slot (pdt c) (pdt_index va)) e2]\<rparr>)"
    by blast
  show ?thesis
    apply (rule exI [of _ e4], rule exI [of _ e3], rule exI [of _ e2])
    using i4 i3 i2 rdy(1,3)
    by (simp add: hold_factored KASSERT_def Let_def wA_def wB_def)
qed

lemma flush_trace [simp]:
  "trace (xen_flush_queue (xen_queue_pt_update ma v w)) = trace w @ [EvQueue ma v, EvFlush]"
  by (simp add: xen_flush_queue_def xen_queue_pt_update_def)


lemma entry_at_trace [simp]: "entry_at M (w\<lparr>trace := tr\<rparr>) s = entry_at M w s"
  by (simp add: entry_at_def split: option.splits)

lemma inspect_level_Inr:
  assumes "inspect_level M va c t s w = Inr (r, w')" "ptov (ptmb c) = Some pv"
  shows "w' = w\<lparr>trace := trace w @ [EvLoad s (entry_at M w s)]\<rparr> \<and>
         r = (if present M (entry_at M w s)
              then Some (pv (xpmap_mtop M (entry_at M w s AND PG_FRAME))) else None)"
  using assms
  by (auto simp: inspect_level_def get_next_def KASSERT_def load_def present_def entry_at_def
      call_ptov_def split: if_splits option.splits)

lemma inspect_pmap:
  assumes "mmu_map_inspect_va M pm (Some pti) va w = Inr (found, c1, w1)"
  shows "pm = Some \<lparr>pm_pml4 = pml4t c1\<rparr>"
proof -
  from assms obtain p where p: "pm = Some p"
    by (cases pm) (simp_all add: mmu_map_inspect_va_def)
  from assms [unfolded p inspect_factored] have "pm_pml4 p = pml4t c1"
    by (auto simp: KASSERT_def bindE_def Let_def split: if_splits sum.splits option.splits)
  with p show ?thesis by simp
qed

section \<open>The scenario, evaluated\<close>

lemmas walk_defs = mmu_map_hold_va_def mmu_map_inspect_va_def
  pmap_get_pml4t_def pmap_get_pdpt_def pmap_get_pdt_def pmap_get_pt_def
  call_alloc_def call_ptov_def call_vtop_def
  load_def xen_queue_pt_update_def xen_flush_queue_def bindE_def KASSERT_def slot_def
  pml4t_index_def pdpt_index_def pdt_index_def
  PDRSHIFT_def PDPSHIFT_def PML4SHIFT_def PDPMASK_def PML4MASK_def
  PG_V_def PG_RW_def PG_U_def PG_FRAME_def SANE_def

lemmas release_defs = mmu_map_release_va_def zap_pdte_def zap_pdpte_def zap_pml4te_def
  memcchr_def first_nonzero_byte_def call_free_def atop_def PAGE_SHIFT_def PAGE_SIZE_def

lemmas scenario_defs = scenario_machine_def scenario_pmap_def scenario_va_def fresh_ctx_def
  fresh_world_def held_ctx_def held_world_def fake_backend_def

lemma memcchr_slots_numeral:
  "memcchr_slots M m s (numeral k) =
     (case mmu M s of None \<Rightarrow> Inl Fault
      | Some ma \<Rightarrow> if m ma \<noteq> 0 then Inr (s + first_nonzero_byte (m ma))
                  else memcchr_slots M m (s + 8) (pred_numeral k))"
  by (simp add: numeral_eq_Suc)

lemma scenario_hold:
  "mmu_map_hold_va scenario_machine (Some scenario_pmap) (Some fresh_ctx) scenario_va fresh_world =
     Inr (True, held_ctx, held_world)"
  by (simp add: walk_defs scenario_defs)

lemma scenario_inspect:
  "mmu_map_inspect_va scenario_machine (Some scenario_pmap) (Some held_ctx) scenario_va held_world =
     Inr (True, held_ctx, held_world\<lparr>trace := trace held_world @
       [EvLoad 0x210100 0x111007, EvLoad 0x211000 0x112007, EvLoad 0x212800 0x113007]\<rparr>)"
  by (simp add: walk_defs scenario_defs)

lemma scenario_backend:
  "alloc (ptmb fresh_ctx) =
     Some (\<lambda>h. case pool h of [] \<Rightarrow> (0, h) | p # ps \<Rightarrow> (p, h\<lparr>pool := ps\<rparr>))"
  "ptov (ptmb fresh_ctx) = Some (\<lambda>pa. pa + 0x200000)"
  "vtop (ptmb fresh_ctx) = Some (\<lambda>v. v - 0x200000)"
  by (simp_all add: fresh_ctx_def fake_backend_def)

lemma scenario_confined:
  "alloc_confined scenario_machine (\<lambda>v. v - 0x200000)
     (\<lambda>h. case pool h of [] \<Rightarrow> (0, h) | p # ps \<Rightarrow> (p, h\<lparr>pool := ps\<rparr>))"
  by (simp add: alloc_confined_def split: list.splits)

lemma scenario_well_placed:
  "well_placed scenario_machine (\<lambda>pa. pa + 0x200000) (\<lambda>v. v - 0x200000) held_ctx scenario_va"
  by (simp add: well_placed_def good_page_def atop_def PAGE_SHIFT_def scenario_defs
      slot_def pml4t_index_def pdpt_index_def pdt_index_def
      PDRSHIFT_def PDPSHIFT_def PML4SHIFT_def PDPMASK_def PML4MASK_def PG_FRAME_def)

lemma scenario_queue: "queue fresh_world = []"
  by (simp add: fresh_world_def)

section \<open>inspect\<close>

text \<open>
  C4 as stated fails: a valid entry whose frame translates to physical address 0 is taken
  for a missing table. In \<open>phys0_world\<close> the governing entry of \<open>scenario_va\<close> is valid at
  every level, and inspect returns false after reading the first one.
\<close>

theorem inspect_misses_valid_entries:
  "every_level_valid scenario_machine (\<lambda>pa. pa + 0x200000) (pm_pml4 scenario_pmap) scenario_va
     phys0_world
   \<and> mmu_map_inspect_va scenario_machine (Some scenario_pmap) (Some fresh_ctx) scenario_va
        phys0_world =
       Inr (False, fresh_ctx\<lparr>pml4t := 0x210000\<rparr>,
            phys0_world\<lparr>trace := [EvLoad 0x210100 0x100001]\<rparr>)"
  by (simp add: walk_defs scenario_defs phys0_world_def every_level_valid_def entry_at_def)

text \<open>
  C4, amended. Whenever inspect returns on an initialised context (no assertion fails, no
  read faults), it has called neither the allocator nor the free routine and has queued and
  flushed nothing: the backing store and the queue are unchanged and the trace has grown by
  reads of table entries only. It returns found = true, with the three lower table
  references set to the tables the entries lead to, exactly when at every level the
  governing entry is valid and its frame translates to a physical address other than 0;
  otherwise it returns false.
\<close>

theorem inspect_reads_only:
  assumes run: "mmu_map_inspect_va M pm (Some pti) va w = Inr (found, c1, w1)"
    and pv: "ptov (ptmb pti) = Some pv"
  shows "hp w1 = hp w \<and> queue w1 = queue w
    \<and> (\<exists>ls. trace w1 = trace w @ ls \<and> list_all is_load ls)
    \<and> pm = Some \<lparr>pm_pml4 = pml4t c1\<rparr>
    \<and> (if found then walk M pv (pml4t c1) va w = Some (pdpt c1, pdt c1, pt c1)
        else walk M pv (pml4t c1) va w = None)"
proof -
  from run obtain p where p: "pm = Some p"
    by (cases pm) (simp_all add: mmu_map_inspect_va_def)
  note root = inspect_pmap [OF run]
  define c0 where "c0 = pti\<lparr>pml4t := pm_pml4 p\<rparr>"
  have pv0: "ptov (ptmb c0) = Some pv" using pv by (simp add: c0_def)
  note r = run [unfolded p inspect_factored, folded c0_def]
  from r have s: "sanity pti = SANE" "pm_pml4 p \<noteq> 0"
    by (auto simp: KASSERT_def split: if_splits)
  from r s obtain x4 where L4: "inspect_level M va c0 (pml4t c0) (slot (pml4t c0) (pml4t_index va)) w = Inr x4"
    by (cases "inspect_level M va c0 (pml4t c0) (slot (pml4t c0) (pml4t_index va)) w")
       (simp_all add: KASSERT_def Let_def c0_def)
  obtain r4 wA where x4: "x4 = (r4, wA)" by (cases x4)
  note I4 = inspect_level_Inr [OF L4 [unfolded x4] pv0]
  show ?thesis
  proof (cases r4)
    case None
    with r s L4 x4 I4 root show ?thesis
      by (auto simp: KASSERT_def Let_def walk_def c0_def split: if_splits)
  next
    case (Some t3)
    define c3 where "c3 = c0\<lparr>pdpt := t3\<rparr>"
    have pv3: "ptov (ptmb c3) = Some pv" using pv0 by (simp add: c3_def)
    from r s L4 x4 Some obtain x3 where
      L3: "inspect_level M va c3 (pdpt c3) (slot (pdpt c3) (pdpt_index va)) wA = Inr x3"
      by (cases "inspect_level M va c3 (pdpt c3) (slot (pdpt c3) (pdpt_index va)) wA")
         (simp_all add: KASSERT_def Let_def c0_def c3_def)
    obtain r3 wB where x3: "x3 = (r3, wB)" by (cases x3)
    note I3 = inspect_level_Inr [OF L3 [unfolded x3] pv3]
    show ?thesis
    proof (cases r3)
      case None
      with r s L4 x4 I4 Some L3 x3 I3 root show ?thesis
        by (auto simp: KASSERT_def Let_def walk_def c0_def c3_def split: if_splits)
    next
      case (Some t2)
      note S3 = \<open>r4 = Some t3\<close>
      define c2 where "c2 = c3\<lparr>pdt := t2\<rparr>"
      have pv2: "ptov (ptmb c2) = Some pv" using pv3 by (simp add: c2_def)
      from r s L4 x4 S3 L3 x3 Some obtain x2 where
        L2: "inspect_level M va c2 (pdt c2) (slot (pdt c2) (pdt_index va)) wB = Inr x2"
        by (cases "inspect_level M va c2 (pdt c2) (slot (pdt c2) (pdt_index va)) wB")
           (simp_all add: KASSERT_def Let_def c0_def c3_def c2_def)
      obtain r2 wC where x2: "x2 = (r2, wC)" by (cases x2)
      note I2 = inspect_level_Inr [OF L2 [unfolded x2] pv2]
      from r s L4 x4 I4 S3 L3 x3 I3 Some L2 x2 I2 root show ?thesis
        by (cases r2)
          (auto simp: KASSERT_def Let_def walk_def c0_def c3_def c2_def split: if_splits)
    qed
  qed
qed

theorem inspect_reads_only_witness:
  "mmu_map_inspect_va scenario_machine (Some scenario_pmap) (Some held_ctx) scenario_va held_world =
     Inr (True, held_ctx, held_world\<lparr>trace := trace held_world @
       [EvLoad 0x210100 0x111007, EvLoad 0x211000 0x112007, EvLoad 0x212800 0x113007]\<rparr>)
   \<and> Some scenario_pmap = Some \<lparr>pm_pml4 = pml4t held_ctx\<rparr>
   \<and> walk scenario_machine (\<lambda>pa. pa + 0x200000) (pml4t held_ctx) scenario_va held_world =
       Some (pdpt held_ctx, pdt held_ctx, pt held_ctx)"
  using scenario_inspect inspect_reads_only [OF scenario_inspect, of "\<lambda>pa. pa + 0x200000"]
  by (simp add: held_ctx_def fake_backend_def)

section \<open>hold\<close>



text \<open>
  C6. Let hold of \<open>va\<close> return on an initialised context, with nothing queued before the
  call, an allocator that writes only inside the page it hands out, and the tables of the
  resulting context well placed. Then inspect of \<open>va\<close> on the same pmap, in the world hold
  left, run on any initialised context of the same backend translation, whatever its four
  table references held before, returns found = true and sets the four references to the
  ones hold produced; it only adds its three reads to the trace.
\<close>

theorem inspect_after_hold:
  assumes B: "alloc (ptmb pti) = Some al" "ptov (ptmb pti) = Some pv" "vtop (ptmb pti) = Some vp"
    and conf: "alloc_confined M vp al"
    and q: "queue w = []"
    and run: "mmu_map_hold_va M pm (Some pti) va w = Inr (a, c1, w1)"
    and wp: "well_placed M pv vp c1 va"
    and ci: "sanity ci = SANE" "ptov (ptmb ci) = Some pv"
  shows "\<exists>e4 e3 e2. mmu_map_inspect_va M pm (Some ci) va w1 =
     Inr (True, ci\<lparr>pml4t := pml4t c1, pdpt := pdpt c1, pdt := pdt c1, pt := pt c1\<rparr>,
       w1\<lparr>trace := trace w1 @
         [EvLoad (slot (pml4t c1) (pml4t_index va)) e4,
          EvLoad (slot (pdpt c1) (pdpt_index va)) e3,
          EvLoad (slot (pdt c1) (pdt_index va)) e2]\<rparr>)"
proof -
  from hold_ready [OF run B] have rdy:
    "pml4t c1 \<noteq> 0" "pdpt c1 \<noteq> 0" "pdt c1 \<noteq> 0" "va \<le> VM_MAX_KERNEL_ADDRESS M"
    and pm: "pm = Some \<lparr>pm_pml4 = pml4t c1\<rparr>"
    by simp_all
  from hold_resolves [OF run B q conf wp] have "resolved M pv c1 va w1" by simp
  from inspect_of_resolved [OF this rdy ci] show ?thesis unfolding pm .
qed

theorem inspect_after_hold_witness:
  "mmu_map_hold_va scenario_machine (Some scenario_pmap) (Some fresh_ctx) scenario_va fresh_world =
     Inr (True, held_ctx, held_world)
   \<and> (\<exists>e4 e3 e2.
        mmu_map_inspect_va scenario_machine (Some scenario_pmap) (Some stale_ctx) scenario_va
          held_world =
        Inr (True,
          stale_ctx\<lparr>pml4t := pml4t held_ctx, pdpt := pdpt held_ctx, pdt := pdt held_ctx,
                     pt := pt held_ctx\<rparr>,
          held_world\<lparr>trace := trace held_world @
            [EvLoad (slot (pml4t held_ctx) (pml4t_index scenario_va)) e4,
             EvLoad (slot (pdpt held_ctx) (pdpt_index scenario_va)) e3,
             EvLoad (slot (pdt held_ctx) (pdt_index scenario_va)) e2]\<rparr>))
   \<and> stale_ctx\<lparr>pml4t := pml4t held_ctx, pdpt := pdpt held_ctx, pdt := pdt held_ctx,
                pt := pt held_ctx\<rparr> = held_ctx"
proof (intro conjI)
  show "mmu_map_hold_va scenario_machine (Some scenario_pmap) (Some fresh_ctx) scenario_va
          fresh_world = Inr (True, held_ctx, held_world)"
    by (rule scenario_hold)
  have ci: "sanity stale_ctx = SANE" "ptov (ptmb stale_ctx) = Some (\<lambda>pa. pa + 0x200000)"
    by (simp_all add: stale_ctx_def fake_backend_def)
  show "\<exists>e4 e3 e2.
        mmu_map_inspect_va scenario_machine (Some scenario_pmap) (Some stale_ctx) scenario_va
          held_world =
        Inr (True,
          stale_ctx\<lparr>pml4t := pml4t held_ctx, pdpt := pdpt held_ctx, pdt := pdt held_ctx,
                     pt := pt held_ctx\<rparr>,
          held_world\<lparr>trace := trace held_world @
            [EvLoad (slot (pml4t held_ctx) (pml4t_index scenario_va)) e4,
             EvLoad (slot (pdpt held_ctx) (pdpt_index scenario_va)) e3,
             EvLoad (slot (pdt held_ctx) (pdt_index scenario_va)) e2]\<rparr>)"
    by (rule inspect_after_hold [OF scenario_backend scenario_confined scenario_queue
          scenario_hold scenario_well_placed ci])
  show "stale_ctx\<lparr>pml4t := pml4t held_ctx, pdpt := pdpt held_ctx, pdt := pdt held_ctx,
                pt := pt held_ctx\<rparr> = held_ctx"
    by (simp add: stale_ctx_def held_ctx_def)
qed

text \<open>
  C5. Under the same conditions a second hold of \<open>va\<close>, in the world the first one left,
  allocates nothing: it returns allocated = false, leaves the context with its four table
  references as the first call produced it, and only adds its three reads to the trace,
  so the backing store, the allocator's pool included, is untouched.
\<close>

theorem hold_twice_allocates_nothing:
  assumes B: "alloc (ptmb pti) = Some al" "ptov (ptmb pti) = Some pv" "vtop (ptmb pti) = Some vp"
    and conf: "alloc_confined M vp al"
    and q: "queue w = []"
    and run: "mmu_map_hold_va M pm (Some pti) va w = Inr (a, c1, w1)"
    and wp: "well_placed M pv vp c1 va"
  shows "\<exists>e4 e3 e2. mmu_map_hold_va M pm (Some c1) va w1 =
     Inr (False, c1, w1\<lparr>trace := trace w1 @
       [EvLoad (slot (pml4t c1) (pml4t_index va)) e4,
        EvLoad (slot (pdpt c1) (pdpt_index va)) e3,
        EvLoad (slot (pdt c1) (pdt_index va)) e2]\<rparr>)"
proof -
  from hold_ready [OF run B] have rdy: "sanity c1 = SANE" "ptov (ptmb c1) = Some pv"
    "pml4t c1 \<noteq> 0" "pdpt c1 \<noteq> 0" "pdt c1 \<noteq> 0" "va \<le> VM_MAX_KERNEL_ADDRESS M"
    and pm: "pm = Some \<lparr>pm_pml4 = pml4t c1\<rparr>"
    using B by simp_all
  from hold_resolves [OF run B q conf wp] have "resolved M pv c1 va w1" by simp
  from hold_of_resolved [OF this rdy] show ?thesis unfolding pm .
qed

theorem hold_twice_allocates_nothing_witness:
  "mmu_map_hold_va scenario_machine (Some scenario_pmap) (Some fresh_ctx) scenario_va fresh_world =
     Inr (True, held_ctx, held_world)
   \<and> (\<exists>e4 e3 e2.
        mmu_map_hold_va scenario_machine (Some scenario_pmap) (Some held_ctx) scenario_va
          held_world =
        Inr (False, held_ctx, held_world\<lparr>trace := trace held_world @
          [EvLoad (slot (pml4t held_ctx) (pml4t_index scenario_va)) e4,
           EvLoad (slot (pdpt held_ctx) (pdpt_index scenario_va)) e3,
           EvLoad (slot (pdt held_ctx) (pdt_index scenario_va)) e2]\<rparr>))"
proof (rule conjI)
  show "mmu_map_hold_va scenario_machine (Some scenario_pmap) (Some fresh_ctx) scenario_va
          fresh_world = Inr (True, held_ctx, held_world)"
    by (rule scenario_hold)
  show "\<exists>e4 e3 e2.
        mmu_map_hold_va scenario_machine (Some scenario_pmap) (Some held_ctx) scenario_va
          held_world =
        Inr (False, held_ctx, held_world\<lparr>trace := trace held_world @
          [EvLoad (slot (pml4t held_ctx) (pml4t_index scenario_va)) e4,
           EvLoad (slot (pdpt held_ctx) (pdpt_index scenario_va)) e3,
           EvLoad (slot (pdt held_ctx) (pdt_index scenario_va)) e2]\<rparr>)"
    by (rule hold_twice_allocates_nothing [OF scenario_backend scenario_confined scenario_queue
          scenario_hold scenario_well_placed])
qed

section \<open>release\<close>

text \<open>
  C7 as stated fails: the assertion on the governing entry of an absent leaf table reads
  the page directory before the page check of the directory's own level. After an inspect
  of \<open>selfmap_va\<close> that found no leaf table, the directory lies in the page of
  \<open>selfmap_va\<close>, and release reads entry 1 of that directory and then returns at the
  directory's page check.
\<close>

theorem release_reads_self_mapped_directory:
  "mmu_map_inspect_va scenario_machine (Some scenario_pmap) (Some fresh_ctx) selfmap_va
     selfmap_world =
     Inr (False, inspected_ctx,
          selfmap_world\<lparr>trace := [EvLoad 0x210000 0x111007, EvLoad 0x211000 0x112007,
                                    EvLoad 0x212008 0]\<rparr>)
   \<and> atop (pdt inspected_ctx) = atop selfmap_va
   \<and> mmu_map_release_va scenario_machine (Some scenario_pmap) (Some inspected_ctx) selfmap_va
        selfmap_world =
     Inr (inspected_ctx, selfmap_world\<lparr>trace := [EvLoad 0x212008 0]\<rparr>)
   \<and> atop 0x212008 = atop (pdt inspected_ctx)"
  by (simp add: walk_defs release_defs scenario_defs selfmap_va_def selfmap_world_def
      inspected_ctx_def)

text \<open>
  C7, amended. When release reaches the page check of a level and that level's table
  reference lies in the page of the address being released, it returns at once: from the
  check on it reads no table, queues no update and frees nothing, so the check of a level
  comes before that level's emptiness scan. For the leaf level the whole call leaves the
  world as it was. For the two levels above the leaf the statement is about the rest of
  release from that level's block on; what the blocks of deeper levels did before, the
  assertion's read of the entry that governs an absent child and the zeroing of the entry
  that governed a freed child, is not excluded.
\<close>

theorem release_stops_at_self_mapping:
  "(sanity pti = SANE \<and> pm_pml4 p \<noteq> 0 \<and> pdt pti \<noteq> 0 \<and> pt pti \<noteq> 0 \<and>
      atop (pt pti) = atop va
      \<longrightarrow> mmu_map_release_va M (Some p) (Some pti) va w = Inr (pti\<lparr>pml4t := pm_pml4 p\<rparr>, w))
   \<and> (pdpt pti \<noteq> 0 \<and> pdt pti \<noteq> 0 \<and> atop (pdt pti) = atop va
      \<longrightarrow> zap_pdpte M va pti w = Inr (pti, w))
   \<and> (pml4t pti \<noteq> 0 \<and> pdpt pti \<noteq> 0 \<and> atop (pdpt pti) = atop va
      \<longrightarrow> zap_pml4te M va pti w = Inr (pti, w))"
  by (simp add: mmu_map_release_va_def zap_pdte_def zap_pdpte_def zap_pml4te_def
      pmap_get_pml4t_def KASSERT_def Let_def)

theorem release_stops_at_self_mapping_witness:
  "mmu_map_release_va scenario_machine (Some scenario_pmap) (Some held_ctx) 0x213000 held_world =
     Inr (held_ctx, held_world)
   \<and> zap_pdpte scenario_machine 0x212000 held_ctx held_world = Inr (held_ctx, held_world)
   \<and> zap_pml4te scenario_machine 0x211000 held_ctx held_world = Inr (held_ctx, held_world)"
  using release_stops_at_self_mapping
          [of held_ctx scenario_pmap "0x213000" scenario_machine held_world]
        release_stops_at_self_mapping
          [of held_ctx scenario_pmap "0x212000" scenario_machine held_world]
        release_stops_at_self_mapping
          [of held_ctx scenario_pmap "0x211000" scenario_machine held_world]
  by (simp add: held_ctx_def scenario_pmap_def SANE_def atop_def PAGE_SHIFT_def)

text \<open>
  C2 fails on the code: the emptiness tests of the two levels above the leaf scan the leaf
  table, not the table of their own level. With one live entry left in the leaf table at
  0x213000, release scans that page three times and never scans the page directory at
  0x212000 or the directory pointer table at 0x211000.
\<close>

theorem release_scans_leaf_at_every_level:
  "mmu_map_release_va scenario_machine (Some scenario_pmap) (Some held_ctx) scenario_va busy_world =
     Inr (held_ctx, busy_world\<lparr>trace := [EvScan 0x213000, EvScan 0x213000, EvScan 0x213000]\<rparr>)
   \<and> pt held_ctx = 0x213000 \<and> pdt held_ctx = 0x212000 \<and> pdpt held_ctx = 0x211000"
  by (simp add: walk_defs release_defs scenario_defs busy_world_def memcchr_slots_numeral)

text \<open>
  C1 fails on the code: release right after a hold that allocated the three levels frees
  the leaf table, sets the leaf reference to null and then scans through that null
  reference at the next level. Where the null page is not mapped the call faults there;
  where it is mapped and holds a non-zero entry at address 8 the call returns with the
  leaf table freed and the two directories neither zeroed in their parents nor freed.
\<close>

theorem release_after_hold_frees_leaf_only:
  "mmu_map_hold_va scenario_machine (Some scenario_pmap) (Some fresh_ctx) scenario_va fresh_world =
     Inr (True, held_ctx, held_world)
   \<and> mmu_map_release_va scenario_machine (Some scenario_pmap) (Some held_ctx) scenario_va
        held_world = Inl Fault
   \<and> mmu_map_release_va lowmem_machine (Some scenario_pmap) (Some held_ctx) scenario_va
        lowmem_world =
     Inr (held_ctx\<lparr>pt := 0\<rparr>,
          \<lparr>hp = \<lparr>mem = (\<lambda>_. 0)(0xfffffffffff00008 := 0xf000ff53f000ff53,
                                  0x110100 := 0x111007, 0x111000 := 0x112007, 0x112800 := 0),
                  pool = [0x213000]\<rparr>,
            queue = [],
            trace = [EvScan 0x213000, EvQueue 0x112800 0, EvFlush, EvFree 0x213000,
                     EvScan 0, EvScan 0]\<rparr>)"
  using scenario_hold
  by (simp add: walk_defs release_defs scenario_defs lowmem_machine_def lowmem_world_def
      memcchr_slots_numeral)

end
